theory Spec2Isabelle
  imports Complex_Main
begin

section \<open>Numbers and strings of the source language\<close>

text \<open>
  A JavaScript number is either finite or one of the three non-finite values. Finite
  numbers are idealised as reals: rounding of IEEE doubles is outside this development.
  \<open>Number.isFinite\<close> is the test \<open>isFinite\<close>.
\<close>

datatype jsnum = Num real | NaN | PosInf | NegInf

fun isFinite :: "jsnum \<Rightarrow> bool" where
  "isFinite (Num r) = True"
| "isFinite NaN = False"
| "isFinite PosInf = False"
| "isFinite NegInf = False"

text \<open>
  A string is the list of its UTF-16 code units, written as natural numbers; \<open>ascii\<close>
  turns a literal of the logic into such a string.
\<close>

type_synonym jsstring = "nat list"

definition ascii :: "string \<Rightarrow> jsstring" where
  "ascii s = map of_char s"

text \<open>
  \<open>String.prototype.trim\<close> removes white space and line terminators at both ends: TAB,
  LF, VT, FF, CR, the space separators U+0020, U+00A0, U+1680, U+2000 to U+200A, U+202F,
  U+205F and U+3000, the separators U+2028 and U+2029, and U+FEFF.
\<close>

definition isWhiteSpace :: "nat \<Rightarrow> bool" where
  "isWhiteSpace c =
     (c \<in> {9, 10, 11, 12, 13, 32, 160, 5760, 8232, 8233, 8239, 8287, 12288, 65279}
      \<or> (8192 \<le> c \<and> c \<le> 8202))"

definition trim :: "jsstring \<Rightarrow> jsstring" where
  "trim s = rev (dropWhile isWhiteSpace (rev (dropWhile isWhiteSpace s)))"

text \<open>
  \<open>String.prototype.toUpperCase\<close>. On a string of ASCII units it sends \<open>a..z\<close> to \<open>A..Z\<close>
  and leaves every other unit alone. On a string with a unit beyond ASCII the result is
  given by the Unicode case mapping of the runtime, which may also change the length
  (sharp s becomes \<open>SS\<close>); that mapping is the parameter \<open>U\<close>.
\<close>

definition asciiUpper :: "nat \<Rightarrow> nat" where
  "asciiUpper c = (if 97 \<le> c \<and> c \<le> 122 then c - 32 else c)"

definition toUpperCase :: "(jsstring \<Rightarrow> jsstring) \<Rightarrow> jsstring \<Rightarrow> jsstring" where
  "toUpperCase U s = (if list_all (\<lambda>c. c < 128) s then map asciiUpper s else U s)"

text \<open>\<open>s.padStart(3, '0')\<close>: a string of three or more units is unchanged.\<close>

definition padStart3 :: "jsstring \<Rightarrow> jsstring" where
  "padStart3 s = replicate (3 - length s) 48 @ s"

text \<open>The regular expression \<open>/^[A-Z]{2}$/\<close>.\<close>

definition isUpperAZ :: "nat \<Rightarrow> bool" where
  "isUpperAZ c = (65 \<le> c \<and> c \<le> 90)"

definition twoUpper :: "jsstring \<Rightarrow> bool" where
  "twoUpper s = (length s = 2 \<and> list_all isUpperAZ s)"

text \<open>
  A \<open>Map\<close> keeps insertion order, and so do the own properties of an object that are not
  array indices: both are association lists with distinct keys, and setting a key
  replaces its value in place or appends the key. A \<open>Set\<close> is a list without repetition.
\<close>

fun mapSet :: "'k \<Rightarrow> 'v \<Rightarrow> ('k \<times> 'v) list \<Rightarrow> ('k \<times> 'v) list" where
  "mapSet k v [] = [(k, v)]"
| "mapSet k v ((k', v') # m) =
     (if k' = k then (k, v) # m else (k', v') # mapSet k v m)"

definition setAdd :: "'a \<Rightarrow> 'a list \<Rightarrow> 'a list" where
  "setAdd x xs = (if x \<in> set xs then xs else xs @ [x])"

section \<open>The leaderboard cache (src/lib/leaderboard.ts)\<close>

text \<open>
  \<open>normalizeCountryCode\<close>: the argument is \<open>None\<close> for \<open>undefined\<close> and \<open>null\<close>; the empty
  string is falsy as well. \<open>U\<close> is the case mapping of the runtime.
\<close>

definition normalizeCountryCode :: "(jsstring \<Rightarrow> jsstring) \<Rightarrow> jsstring option \<Rightarrow> jsstring option" where
  "normalizeCountryCode U input =
     (case input of
        None \<Rightarrow> None
      | Some s \<Rightarrow>
          if s = [] then None
          else (let code = toUpperCase U (trim s)
                in if twoUpper code then Some code else None))"

text \<open>
  The values that \<open>JSON.parse\<close> yields. The members of a parsed object have distinct keys
  (of a repeated key the parser keeps the last value).
\<close>

datatype json =
    JNull
  | JBool bool
  | JNum real
  | JStr jsstring
  | JArr "json list"
  | JObj "(jsstring \<times> json) list"

text \<open>
  What \<open>getCounts\<close> hands out and \<open>incrementCountry\<close> assigns to: an object with its
  properties, or an array with its elements and the further properties set on it.
\<close>

datatype counts =
    CObj "(jsstring \<times> json) list"
  | CArr "json list" "(jsstring \<times> json) list"

text \<open>
  The environment of the cache. \<open>hasWindow\<close> is \<open>typeof window !== 'undefined'\<close>.
  \<open>item\<close> is the entry of local storage under the key \<open>leaderboard_counts\<close>: absent, a
  text that is empty or that \<open>JSON.parse\<close> rejects, or a text that parses to a value.
  \<open>writable\<close> tells whether \<open>localStorage.setItem\<close> returns (it throws when the quota is
  exhausted or storage is disabled). \<open>updates\<close> counts the \<open>leaderboard:update\<close> events
  dispatched so far.
\<close>

datatype stored = Unparseable | Parsed json

record browser =
  hasWindow :: bool
  item :: "stored option"
  writable :: bool
  updates :: nat

text \<open>
  The runtime: its Unicode case mapping, and the text that \<open>+\<close> yields for a left operand
  that is a non-empty string, an array or an object and a right operand that is a number
  (the concatenation of the two converted to strings).
\<close>

record runtime =
  unicodeUpper :: "jsstring \<Rightarrow> jsstring"
  plusText :: "json \<Rightarrow> real \<Rightarrow> jsstring"

definition emitUpdate :: "browser \<Rightarrow> browser" where
  "emitUpdate b = (if hasWindow b then b\<lparr>updates := updates b + 1\<rparr> else b)"

text \<open>
  \<open>getCounts\<close> returns the parsed value when it is truthy and its \<open>typeof\<close> is
  \<open>'object'\<close>, which holds of objects and of arrays, and an empty object otherwise.
\<close>

definition getCounts :: "browser \<Rightarrow> counts" where
  "getCounts b =
     (if \<not> hasWindow b then CObj []
      else case item b of
             None \<Rightarrow> CObj []
           | Some Unparseable \<Rightarrow> CObj []
           | Some (Parsed j) \<Rightarrow>
               (case j of
                  JObj ps \<Rightarrow> CObj ps
                | JArr xs \<Rightarrow> CArr xs []
                | _ \<Rightarrow> CObj []))"

text \<open>
  \<open>JSON.stringify\<close> writes the properties of an object, and of an array its elements
  only. \<open>setCounts\<close>: a throwing \<open>setItem\<close> is caught, and then no event is emitted.
\<close>

definition stringify :: "counts \<Rightarrow> json" where
  "stringify c = (case c of CObj ps \<Rightarrow> JObj ps | CArr xs ex \<Rightarrow> JArr xs)"

definition setCounts :: "counts \<Rightarrow> browser \<Rightarrow> browser" where
  "setCounts next b =
     (if \<not> hasWindow b then b
      else if writable b then emitUpdate (b\<lparr>item := Some (Parsed (stringify next))\<rparr>)
      else b)"

text \<open>
  Reading and assigning \<open>counts[cc]\<close> for a key \<open>cc\<close> of two upper-case letters, which is
  neither an array index nor a property that objects or arrays inherit.
\<close>

definition getProp :: "counts \<Rightarrow> jsstring \<Rightarrow> json option" where
  "getProp c k = (case c of CObj ps \<Rightarrow> map_of ps k | CArr xs ex \<Rightarrow> map_of ex k)"

definition setProp :: "counts \<Rightarrow> jsstring \<Rightarrow> json \<Rightarrow> counts" where
  "setProp c k v = (case c of CObj ps \<Rightarrow> CObj (mapSet k v ps) | CArr xs ex \<Rightarrow> CArr xs (mapSet k v ex))"

text \<open>\<open>v || 0\<close>: a missing property, \<open>null\<close>, \<open>false\<close>, \<open>0\<close> and the empty string give \<open>0\<close>.\<close>

definition orZero :: "json option \<Rightarrow> json" where
  "orZero v =
     (case v of
        None \<Rightarrow> JNum 0
      | Some JNull \<Rightarrow> JNum 0
      | Some (JBool t) \<Rightarrow> if t then JBool True else JNum 0
      | Some (JNum n) \<Rightarrow> JNum n
      | Some (JStr s) \<Rightarrow> if s = [] then JNum 0 else JStr s
      | Some (JArr xs) \<Rightarrow> JArr xs
      | Some (JObj ps) \<Rightarrow> JObj ps)"

text \<open>
  \<open>x + d\<close> for a number \<open>d\<close>: numbers are added, \<open>true\<close> counts as 1, \<open>false\<close> and
  \<open>null\<close> as 0; any other left operand gives a string.
\<close>

definition plusNumber :: "runtime \<Rightarrow> json \<Rightarrow> real \<Rightarrow> json" where
  "plusNumber R x d =
     (case x of
        JNull \<Rightarrow> JNum d
      | JBool t \<Rightarrow> JNum ((if t then 1 else 0) + d)
      | JNum n \<Rightarrow> JNum (n + d)
      | JStr s \<Rightarrow> JStr (plusText R x d)
      | JArr xs \<Rightarrow> JStr (plusText R x d)
      | JObj ps \<Rightarrow> JStr (plusText R x d))"

text \<open>
  \<open>incrementCountry(code, delta = 1)\<close>: \<open>delta\<close> is \<open>None\<close> when the argument is left out,
  and \<open>Number.isFinite(delta) ? delta : 1\<close> is \<open>deltaOf\<close>.
\<close>

definition deltaOf :: "jsnum option \<Rightarrow> real" where
  "deltaOf delta =
     (let d = (case delta of None \<Rightarrow> Num 1 | Some v \<Rightarrow> v)
      in case d of Num r \<Rightarrow> r | _ \<Rightarrow> 1)"

definition incrementCountry :: "runtime \<Rightarrow> jsstring \<Rightarrow> jsnum option \<Rightarrow> browser \<Rightarrow> browser" where
  "incrementCountry R code delta b =
     (case normalizeCountryCode (unicodeUpper R) (Some code) of
        None \<Rightarrow> b
      | Some cc \<Rightarrow>
          (let counts = getCounts b
           in setCounts
                (setProp counts cc (plusNumber R (orZero (getProp counts cc)) (deltaOf delta)))
                b))"

section \<open>The world map renderer (WorldBackground)\<close>

subsection \<open>Data\<close>

datatype BlipKind = New | Repeat

record Blip =
  blip_x :: real
  blip_y :: real
  kind :: BlipKind
  start :: real

text \<open>
  A projection object of the map library, as far as the renderer sets it: its scale and
  its translation.
\<close>

record proj =
  pscale :: real
  ptranslate :: "real \<times> real"

text \<open>
  A country feature: \<open>fid\<close> is \<open>String(feat.id)\<close>, or \<open>None\<close> when the feature has no
  id; \<open>shape\<close> is what the map library reads of it.
\<close>

record 'g feature =
  fid :: "jsstring option"
  shape :: "'g"

text \<open>
  The libraries the renderer calls (d3-geo and iso-3166-1) and the runtime are parameters
  of the model.
  A result \<open>None\<close> of \<open>fitExtent\<close> or \<open>centroid\<close> is a thrown exception (for
  \<open>centroid\<close> also a result that is not an array of two numbers); \<open>project\<close> and
  \<open>invert\<close> return \<open>None\<close> for \<open>null\<close>. An entry of the country table is its
  \<open>alpha2\<close> field, \<open>None\<close> when the field is missing.
\<close>

record 'g ext =
  geoEquirectangular :: proj
  fitExtent :: "proj \<Rightarrow> (real \<times> real) \<times> (real \<times> real) \<Rightarrow> 'g \<Rightarrow> proj option"
  project :: "proj \<Rightarrow> real \<times> real \<Rightarrow> (real \<times> real) option"
  invert :: "proj \<Rightarrow> real \<times> real \<Rightarrow> (real \<times> real) option"
  centroid :: "proj \<Rightarrow> 'g \<Rightarrow> (jsnum \<times> jsnum) option"
  geoContains :: "'g \<Rightarrow> real \<times> real \<Rightarrow> bool"
  whereNumeric :: "jsstring \<Rightarrow> jsstring option option"
  js :: runtime

text \<open>
  The variables closed over by the effect of the component; the \<open>Map\<close> and the \<open>Set\<close>
  are the lists described above.
\<close>

record 'g world =
  width :: real
  height :: real
  dpr :: real
  canvasWidth :: real
  canvasHeight :: real
  projection :: "proj option"
  landGeo :: "'g option"
  countryLinesGeo :: "'g option"
  countriesFC :: "'g feature list option"
  alpha2ToCentroid :: "(jsstring \<times> (real \<times> real)) list"
  pinned :: "jsstring list"
  blips :: "Blip list"

text \<open>What the canvas is asked to draw.\<close>

datatype 'g draw =
    ClearRect real real
  | GradientBackground real real
  | Land 'g real
  | Boundaries 'g real
  | PinDot real real
  | PinRing real real
  | BlipDisc real real real real
  | BlipRing real real real real

text \<open>
  What a handler lets out: a hover event, a call of the selection callback, the shapes of
  a frame, or an exception thrown out of the listener.
\<close>

datatype 'g emitted =
    Hover "jsstring option" real real
  | Select jsstring
  | Drawn "'g draw list"
  | Thrown

subsection \<open>alpha2FromNumeric (src/lib/leaderboard.ts)\<close>

definition alpha2FromNumeric :: "'g ext \<Rightarrow> jsstring option \<Rightarrow> jsstring option" where
  "alpha2FromNumeric E numeric =
     (case numeric of
        None \<Rightarrow> None
      | Some n \<Rightarrow>
          (case whereNumeric E (padStart3 n) of
             None \<Rightarrow> None
           | Some None \<Rightarrow> None
           | Some (Some a) \<Rightarrow>
               if a = [] then None else Some (toUpperCase (unicodeUpper (js E)) a)))"

text \<open>\<open>(feat.id != null ? String(feat.id) : '').padStart(3, '0')\<close> and its alpha-2 code.\<close>

definition featureNumeric :: "'g feature \<Rightarrow> jsstring" where
  "featureNumeric feat = padStart3 (case fid feat of None \<Rightarrow> [] | Some i \<Rightarrow> i)"

definition featureAlpha2 :: "'g ext \<Rightarrow> 'g feature \<Rightarrow> jsstring option" where
  "featureAlpha2 E feat = alpha2FromNumeric E (Some (featureNumeric feat))"

subsection \<open>Projection Manager: setSize\<close>

text \<open>
  \<open>Math.max(1, Math.min(window.devicePixelRatio || 1, 2))\<close>; the argument is \<open>None\<close> when
  the browser does not define the ratio.
\<close>

definition dprOf :: "jsnum option \<Rightarrow> real" where
  "dprOf d =
     (case d of
        None \<Rightarrow> 1
      | Some (Num r) \<Rightarrow> max 1 (min (if r = 0 then 1 else r) 2)
      | Some NaN \<Rightarrow> 1
      | Some PosInf \<Rightarrow> 2
      | Some NegInf \<Rightarrow> 1)"

text \<open>
  The block \<open>if (landGeo) { ... }\<close> of \<open>setSize\<close>, which \<open>init\<close> repeats word for word:
  fit to the padded extent and enlarge, or on an exception scale by the width.
\<close>

definition fitProjection :: "'g ext \<Rightarrow> real \<Rightarrow> real \<Rightarrow> 'g \<Rightarrow> proj" where
  "fitProjection E w h land =
     (let p0 = geoEquirectangular E;
          padding = max 12 (min w h * 0.028)
      in case fitExtent E p0 ((padding, padding), (w - padding, h - padding)) land of
           Some p \<Rightarrow> p\<lparr>pscale := pscale p * 1.06\<rparr>
         | None \<Rightarrow>
             (let scale = w / (2 * pi)
              in p0\<lparr>pscale := scale * 1.06, ptranslate := (w / 2, h / 2)\<rparr>))"

definition refit :: "'g ext \<Rightarrow> 'g world \<Rightarrow> 'g world" where
  "refit E st =
     (case landGeo st of
        None \<Rightarrow> st
      | Some land \<Rightarrow> st\<lparr>projection := Some (fitProjection E (width st) (height st) land)\<rparr>)"

text \<open>\<open>rect\<close> is the bounding rectangle of the parent (or the window's inner size).\<close>

definition setSize :: "'g ext \<Rightarrow> real \<times> real \<Rightarrow> jsnum option \<Rightarrow> 'g world \<Rightarrow> 'g world" where
  "setSize E rect devicePixelRatio st =
     (let w = of_int \<lfloor>fst rect\<rfloor>;
          h = of_int \<lfloor>snd rect\<rfloor>;
          d = dprOf devicePixelRatio
      in refit E (st\<lparr>width := w, height := h, dpr := d,
                      canvasWidth := of_int \<lfloor>w * d\<rfloor>,
                      canvasHeight := of_int \<lfloor>h * d\<rfloor>\<rparr>))"

subsection \<open>Centroid Index: computeCentroids\<close>

text \<open>The test \<open>Array.isArray(c) && c.length === 2 && Number.isFinite(c[0]) && Number.isFinite(c[1])\<close>.\<close>

fun finitePoint :: "(jsnum \<times> jsnum) option \<Rightarrow> (real \<times> real) option" where
  "finitePoint (Some (Num a, Num b)) = Some (a, b)"
| "finitePoint _ = None"

fun centroidLoop ::
  "'g ext \<Rightarrow> proj \<Rightarrow> 'g feature list \<Rightarrow> (jsstring \<times> (real \<times> real)) list \<Rightarrow> (jsstring \<times> (real \<times> real)) list"
where
  "centroidLoop E p [] m = m"
| "centroidLoop E p (feat # fs) m =
     (case featureAlpha2 E feat of
        None \<Rightarrow> centroidLoop E p fs m
      | Some alpha2 \<Rightarrow>
          (case finitePoint (centroid E p (shape feat)) of
             Some c \<Rightarrow> centroidLoop E p fs (mapSet alpha2 c m)
           | None \<Rightarrow> centroidLoop E p fs m))"

definition computeCentroids :: "'g ext \<Rightarrow> 'g world \<Rightarrow> 'g world" where
  "computeCentroids E st =
     (case projection st of
        None \<Rightarrow> st
      | Some p \<Rightarrow>
          (case countriesFC st of
             None \<Rightarrow> st
           | Some fc \<Rightarrow> st\<lparr>alpha2ToCentroid := centroidLoop E p fc []\<rparr>))"

definition onResize :: "'g ext \<Rightarrow> real \<times> real \<Rightarrow> jsnum option \<Rightarrow> 'g world \<Rightarrow> 'g world" where
  "onResize E rect devicePixelRatio st = computeCentroids E (setSize E rect devicePixelRatio st)"

subsection \<open>Scene Renderer\<close>

definition drawGradientBackground :: "'g world \<Rightarrow> 'g draw list" where
  "drawGradientBackground st = [GradientBackground (width st) (height st)]"

text \<open>The south gate: \<open>projection([0, -60])\<close>, with the height as the clip when it is null.\<close>

definition yClip :: "'g ext \<Rightarrow> proj \<Rightarrow> 'g world \<Rightarrow> real" where
  "yClip E p st = (case project E p (0, - 60) of Some southGate \<Rightarrow> snd southGate | None \<Rightarrow> height st)"

definition drawLand :: "'g ext \<Rightarrow> 'g world \<Rightarrow> 'g draw list" where
  "drawLand E st =
     (case projection st of
        None \<Rightarrow> []
      | Some p \<Rightarrow> (case landGeo st of None \<Rightarrow> [] | Some land \<Rightarrow> [Land land (yClip E p st)]))"

definition drawCountryBoundaries :: "'g ext \<Rightarrow> 'g world \<Rightarrow> 'g draw list" where
  "drawCountryBoundaries E st =
     (case projection st of
        None \<Rightarrow> []
      | Some p \<Rightarrow>
          (case countryLinesGeo st of None \<Rightarrow> [] | Some lines \<Rightarrow> [Boundaries lines (yClip E p st)]))"

definition drawPin :: "(jsstring \<times> (real \<times> real)) list \<Rightarrow> jsstring \<Rightarrow> 'g draw list" where
  "drawPin m code =
     (case map_of m code of
        None \<Rightarrow> []
      | Some pos \<Rightarrow> [PinDot (fst pos) (snd pos), PinRing (fst pos) (snd pos)])"

definition drawPins :: "'g world \<Rightarrow> 'g draw list" where
  "drawPins st =
     (case projection st of
        None \<Rightarrow> []
      | Some p \<Rightarrow> concat (map (drawPin (alpha2ToCentroid st)) (pinned st)))"

subsection \<open>Effect Scheduler: drawBlips\<close>

definition NEW_DURATION :: real where
  "NEW_DURATION = 760"

definition REPEAT_DURATION :: real where
  "REPEAT_DURATION = 420"

text \<open>The body of the loop over the live blips: \<open>None\<close> is \<open>continue\<close>, the blip is dropped.\<close>

definition drawBlip :: "real \<Rightarrow> Blip \<Rightarrow> 'g draw option" where
  "drawBlip now b =
     (let elapsed = now - start b
      in case kind b of
           New \<Rightarrow>
             if elapsed > NEW_DURATION then None
             else (let t = min 1 (max 0 (elapsed / NEW_DURATION));
                       radius = 4 + t * 18;
                       fade = 1 - t
                   in Some (BlipDisc (blip_x b) (blip_y b) radius fade))
         | Repeat \<Rightarrow>
             if elapsed > REPEAT_DURATION then None
             else (let t = min 1 (max 0 (elapsed / REPEAT_DURATION));
                       radius = 8 + t * 12;
                       fade = 1 - t
                   in Some (BlipRing (blip_x b) (blip_y b) radius (max 0 (0.85 * fade)))))"

text \<open>The result is what was drawn and \<open>nextBlips\<close>, which replaces the live list.\<close>

fun drawBlips :: "real \<Rightarrow> Blip list \<Rightarrow> 'g draw list \<times> Blip list" where
  "drawBlips now [] = ([], [])"
| "drawBlips now (b # bs) =
     (case drawBlip now b of
        None \<Rightarrow> drawBlips now bs
      | Some d \<Rightarrow> (d # fst (drawBlips now bs), b # snd (drawBlips now bs)))"

definition frame :: "'g ext \<Rightarrow> real \<Rightarrow> 'g world \<Rightarrow> 'g draw list \<times> 'g world" where
  "frame E now st =
     (let r = drawBlips now (blips st)
      in (ClearRect (width st) (height st) # drawGradientBackground st @ drawLand E st
            @ drawCountryBoundaries E st @ drawPins st @ fst r,
          st\<lparr>blips := snd r\<rparr>))"

subsection \<open>Interaction Layer\<close>

definition pushBlip :: "real \<times> real \<Rightarrow> BlipKind \<Rightarrow> real \<Rightarrow> 'g world \<Rightarrow> 'g world" where
  "pushBlip pos k now st =
     st\<lparr>blips := blips st @ [\<lparr>blip_x = fst pos, blip_y = snd pos, kind = k, start = now\<rparr>]\<rparr>"

text \<open>The scan \<open>for (const feat of countriesFC.features) if (geoContains(...)) { ...; break }\<close>.\<close>

fun findContaining :: "'g ext \<Rightarrow> real \<times> real \<Rightarrow> 'g feature list \<Rightarrow> 'g feature option" where
  "findContaining E lonlat [] = None"
| "findContaining E lonlat (feat # fs) =
     (if geoContains E (shape feat) lonlat then Some feat else findContaining E lonlat fs)"

text \<open>
  \<open>onClick\<close>: \<open>client\<close> is \<open>(e.clientX, e.clientY)\<close>, \<open>origin\<close> is \<open>(rect.left, rect.top)\<close> of
  the canvas, \<open>hasCallback\<close> tells whether the prop \<open>onCountrySelect\<close> was given, and
  \<open>now\<close> is \<open>performance.now()\<close>.
\<close>

definition onClick ::
  "'g ext \<Rightarrow> bool \<Rightarrow> real \<times> real \<Rightarrow> real \<times> real \<Rightarrow> real \<Rightarrow> 'g world \<Rightarrow> 'g emitted list \<times> 'g world"
where
  "onClick E hasCallback client origin now st =
     (case projection st of
        None \<Rightarrow> ([], st)
      | Some p \<Rightarrow>
     (case countriesFC st of
        None \<Rightarrow> ([], st)
      | Some fc \<Rightarrow>
     (let x = fst client - fst origin;
          y = snd client - snd origin
      in case invert E p (x, y) of
           None \<Rightarrow> ([], st)
         | Some lonlat \<Rightarrow>
     (case findContaining E lonlat fc of
        None \<Rightarrow> ([], st)
      | Some matched \<Rightarrow>
     (case alpha2FromNumeric E (Some (featureNumeric matched)) of
        None \<Rightarrow> ([], st)
      | Some alpha2 \<Rightarrow>
          (let pos = (case map_of (alpha2ToCentroid st) alpha2 of Some c \<Rightarrow> c | None \<Rightarrow> (x, y))
           in ((if hasCallback then [Select alpha2] else []), pushBlip pos New now st)))))))"

text \<open>The search for the nearest centroid; \<open>nearest\<close> is \<open>None\<close> for \<open>null\<close>.\<close>

fun nearestLoop ::
  "real \<Rightarrow> real \<Rightarrow> (jsstring \<times> (real \<times> real)) list \<Rightarrow> (jsstring \<times> real) option \<Rightarrow> (jsstring \<times> real) option"
where
  "nearestLoop mx my [] nearest = nearest"
| "nearestLoop mx my ((code, c) # m) nearest =
     (let dx = fst c - mx;
          dy = snd c - my;
          d2 = dx * dx + dy * dy
      in nearestLoop mx my m
           (case nearest of
              None \<Rightarrow> Some (code, d2)
            | Some n \<Rightarrow> if d2 < snd n then Some (code, d2) else Some n))"

definition onPointerMove :: "real \<times> real \<Rightarrow> real \<times> real \<Rightarrow> 'g world \<Rightarrow> 'g emitted list" where
  "onPointerMove client origin st =
     (if projection st = None \<or> alpha2ToCentroid st = [] then []
      else (let mx = fst client - fst origin;
                my = snd client - snd origin;
                threshold = 20
            in case nearestLoop mx my (alpha2ToCentroid st) None of
                 Some n \<Rightarrow>
                   if sqrt (snd n) \<le> threshold then [Hover (Some (fst n)) mx my]
                   else [Hover None mx my]
               | None \<Rightarrow> [Hover None mx my]))"

definition onPointerLeave :: "'g emitted list" where
  "onPointerLeave = [Hover None (- 1) (- 1)]"

text \<open>
  The value of \<open>ce.detail?.code\<close> in a pin event: a string, or a value that is not a
  string, of which only the truthiness matters (\<open>undefined\<close>, also for a missing detail,
  \<open>null\<close>, \<open>0\<close> and \<open>false\<close> are falsy). A truthy value that is not a string is taken to
  have no method \<open>toUpperCase\<close>, so the call throws a \<open>TypeError\<close>, which the browser
  reports; the listener has not changed anything by then.
\<close>

datatype payload = Str jsstring | NotString bool

definition onPin :: "'g ext \<Rightarrow> payload \<Rightarrow> 'g world \<Rightarrow> 'g emitted list \<times> 'g world" where
  "onPin E code st =
     (case code of
        NotString truthy \<Rightarrow> if truthy then ([Thrown], st) else ([], st)
      | Str c \<Rightarrow>
          if c = [] then ([], st)
          else ([], st\<lparr>pinned := setAdd (toUpperCase (unicodeUpper (js E)) c) (pinned st)\<rparr>))"

text \<open>
  \<open>onBlip\<close>: \<open>detail\<close> is \<open>None\<close> when the event has no detail or its code is not a string.
  A position read from the index is finite, so the fallback runs exactly when the code
  is not indexed; it stops at the first feature with that code, and a throwing
  \<open>centroid\<close> is caught.
\<close>

fun blipFallback :: "'g ext \<Rightarrow> proj \<Rightarrow> jsstring \<Rightarrow> 'g feature list \<Rightarrow> (real \<times> real) option" where
  "blipFallback E p code [] = None"
| "blipFallback E p code (feat # fs) =
     (if featureAlpha2 E feat = Some code then finitePoint (centroid E p (shape feat))
      else blipFallback E p code fs)"

definition onBlip :: "'g ext \<Rightarrow> (jsstring \<times> BlipKind) option \<Rightarrow> real \<Rightarrow> 'g world \<Rightarrow> 'g world" where
  "onBlip E detail now st =
     (case detail of
        None \<Rightarrow> st
      | Some d \<Rightarrow>
          (let code = toUpperCase (unicodeUpper (js E)) (fst d)
           in case map_of (alpha2ToCentroid st) code of
                Some pos \<Rightarrow> pushBlip pos (snd d) now st
              | None \<Rightarrow>
                  (case projection st of
                     None \<Rightarrow> st
                   | Some p \<Rightarrow>
                       (case countriesFC st of
                          None \<Rightarrow> st
                        | Some fc \<Rightarrow>
                            (case blipFallback E p code fc of
                               None \<Rightarrow> st
                             | Some pos \<Rightarrow>
                                 pushBlip pos (snd d) now
                                   (st\<lparr>alpha2ToCentroid := mapSet code pos (alpha2ToCentroid st)\<rparr>))))))"

subsection \<open>Geometry Loader and init\<close>

text \<open>
  How far the \<open>try\<close> block of \<open>init\<close> got before an import or a conversion threw: nothing
  assigned, only \<open>landGeo\<close>, also \<open>countryLinesGeo\<close>, or all three.
\<close>

datatype 'g loaded =
    LoadFailed
  | LandOnly 'g
  | LandAndBorders 'g 'g
  | Loaded 'g 'g "'g feature list"

definition applyLoad :: "'g loaded \<Rightarrow> 'g world \<Rightarrow> 'g world" where
  "applyLoad l st =
     (case l of
        LoadFailed \<Rightarrow> st
      | LandOnly land \<Rightarrow> st\<lparr>landGeo := Some land\<rparr>
      | LandAndBorders land lines \<Rightarrow> st\<lparr>landGeo := Some land, countryLinesGeo := Some lines\<rparr>
      | Loaded land lines fc \<Rightarrow>
          st\<lparr>landGeo := Some land, countryLinesGeo := Some lines, countriesFC := Some fc\<rparr>)"

text \<open>The variables as declared; a canvas element starts 300 by 150.\<close>

definition initialWorld :: "jsnum option \<Rightarrow> 'g world" where
  "initialWorld d0 =
     \<lparr>width = 0, height = 0, dpr = dprOf d0, canvasWidth = 300, canvasHeight = 150,
      projection = None, landGeo = None, countryLinesGeo = None, countriesFC = None,
      alpha2ToCentroid = [], pinned = [], blips = []\<rparr>"

text \<open>
  \<open>init\<close> up to the registration of the listeners: \<open>setSize\<close>, the load, \<open>setSize\<close>
  again, the projection block, \<open>computeCentroids\<close>. No listener and no frame runs before.
  \<open>r1\<close> and \<open>r2\<close> are the viewport rectangles read by the two calls of \<open>setSize\<close>; the
  device pixel ratio \<open>d\<close> is taken to be the same at each reading.
\<close>

definition init ::
  "'g ext \<Rightarrow> jsnum option \<Rightarrow> real \<times> real \<Rightarrow> 'g loaded \<Rightarrow> real \<times> real \<Rightarrow> 'g world"
where
  "init E d r1 l r2 =
     computeCentroids E (refit E (setSize E r2 d (applyLoad l (setSize E r1 d (initialWorld d)))))"

subsection \<open>The session: events after init\<close>

datatype event =
    Resize "real \<times> real" "jsnum option"
  | Click "real \<times> real" "real \<times> real" real
  | PointerMove "real \<times> real" "real \<times> real"
  | PointerLeave
  | Pin payload
  | BlipRequest "(jsstring \<times> BlipKind) option" real
  | Frame real

fun step :: "'g ext \<Rightarrow> bool \<Rightarrow> event \<Rightarrow> 'g world \<Rightarrow> 'g emitted list \<times> 'g world" where
  "step E cb (Resize rect d) st = ([], onResize E rect d st)"
| "step E cb (Click client origin now) st = onClick E cb client origin now st"
| "step E cb (PointerMove client origin) st = (onPointerMove client origin st, st)"
| "step E cb PointerLeave st = (onPointerLeave, st)"
| "step E cb (Pin code) st = onPin E code st"
| "step E cb (BlipRequest detail now) st = ([], onBlip E detail now st)"
| "step E cb (Frame now) st = ([Drawn (fst (frame E now st))], snd (frame E now st))"

fun run :: "'g ext \<Rightarrow> bool \<Rightarrow> event list \<Rightarrow> 'g world \<Rightarrow> 'g world" where
  "run E cb [] st = st"
| "run E cb (e # es) st = run E cb es (snd (step E cb e st))"

subsection \<open>Notions used to state the properties\<close>

text \<open>The fixed lifetime of a blip of each kind.\<close>

definition duration :: "BlipKind \<Rightarrow> real" where
  "duration k = (case k of New \<Rightarrow> NEW_DURATION | Repeat \<Rightarrow> REPEAT_DURATION)"


text \<open>The squared Euclidean distance between two points of the canvas.\<close>

definition dist2 :: "real \<times> real \<Rightarrow> real \<times> real \<Rightarrow> real" where
  "dist2 c m = (fst c - fst m) * (fst c - fst m) + (snd c - snd m) * (snd c - snd m)"

text \<open>
  The index is current: it is the one \<open>computeCentroids\<close> builds from the projection and
  the feature collection of the state, and empty while either is absent.
\<close>

definition indexCurrent :: "'g ext \<Rightarrow> 'g world \<Rightarrow> bool" where
  "indexCurrent E st =
     (alpha2ToCentroid st =
        (case projection st of
           None \<Rightarrow> []
         | Some p \<Rightarrow> (case countriesFC st of None \<Rightarrow> [] | Some fc \<Rightarrow> centroidLoop E p fc [])))"

text \<open>
  What is left when the load did not get to the feature collection: no collection, an
  empty index and no blips; and when it assigned nothing at all: no geometry and no
  projection either.
\<close>

definition noCountries :: "'g world \<Rightarrow> bool" where
  "noCountries st = (countriesFC st = None \<and> alpha2ToCentroid st = [] \<and> blips st = [])"

definition noGeometry :: "'g world \<Rightarrow> bool" where
  "noGeometry st =
     (noCountries st \<and> projection st = None \<and> landGeo st = None \<and> countryLinesGeo st = None)"

text \<open>
  A numeric id zero-padded to three digits, and the code of a feature: the alpha-2 value
  that the table gives for its zero-padded id, upper-cased.
\<close>

definition zeroPadded3 :: "jsstring \<Rightarrow> jsstring" where
  "zeroPadded3 s =
     (if length s = 0 then [48, 48, 48]
      else if length s = 1 then [48, 48] @ s
      else if length s = 2 then [48] @ s
      else s)"

definition tableCode :: "'g ext \<Rightarrow> 'g feature \<Rightarrow> jsstring option" where
  "tableCode E f =
     (case whereNumeric E (zeroPadded3 (case fid f of None \<Rightarrow> [] | Some i \<Rightarrow> i)) of
        Some (Some a) \<Rightarrow> if a = [] then None else Some (toUpperCase (unicodeUpper (js E)) a)
      | _ \<Rightarrow> None)"


subsection \<open>A small world on which the properties are exercised\<close>

text \<open>
  A runtime whose case mapping knows, beyond ASCII, the sharp s (U+00DF, to \<open>SS\<close>) and the
  long s (U+017F, to \<open>S\<close>), and whose \<open>+\<close> appends \<open>1\<close> to a string.
\<close>

definition demoUpper :: "jsstring \<Rightarrow> jsstring" where
  "demoUpper s =
     concat (map (\<lambda>c. if c = 223 then [83, 83] else if c = 383 then [83] else [asciiUpper c]) s)"

definition demoRuntime :: runtime where
  "demoRuntime =
     \<lparr>unicodeUpper = demoUpper,
      plusText = (\<lambda>x d. case x of JStr s \<Rightarrow> s @ [49] | _ \<Rightarrow> [49])\<rparr>"

text \<open>
  Geometries are numbers. The table knows \<open>840\<close>, \<open>076\<close> and \<open>250\<close>; its entry for \<open>010\<close> has
  no alpha-2 field. The country \<open>250\<close> has a centroid that is not finite, and a land
  geometry \<open>0\<close> makes \<open>fitExtent\<close> throw.
\<close>

definition demoTable :: "jsstring \<Rightarrow> jsstring option option" where
  "demoTable n =
     (if n = ascii ''840'' then Some (Some (ascii ''us''))
      else if n = ascii ''076'' then Some (Some (ascii ''BR''))
      else if n = ascii ''250'' then Some (Some (ascii ''FR''))
      else if n = ascii ''010'' then Some None
      else None)"

definition demoExt :: "int ext" where
  "demoExt =
     \<lparr>geoEquirectangular = \<lparr>pscale = 150, ptranslate = (480, 250)\<rparr>,
      fitExtent = (\<lambda>p e g.
         if g = 0 then None
         else Some \<lparr>pscale = 100,
                    ptranslate = ((fst (fst e) + fst (snd e)) / 2, (snd (fst e) + snd (snd e)) / 2)\<rparr>),
      project = (\<lambda>p l. Some (fst (ptranslate p) + pscale p * fst l / 53,
                              snd (ptranslate p) - pscale p * snd l / 53)),
      invert = (\<lambda>p c. Some ((fst c - fst (ptranslate p)) * 53 / pscale p,
                             (snd (ptranslate p) - snd c) * 53 / pscale p)),
      centroid = (\<lambda>p g.
         if g = 1 then Some (Num (fst (ptranslate p) - pscale p), Num (snd (ptranslate p)))
         else if g = 2 then Some (Num (fst (ptranslate p) + pscale p), Num (snd (ptranslate p)))
         else if g = 3 then Some (NaN, NaN)
         else None),
      geoContains = (\<lambda>g l.
         if g = 1 then fst l < 0
         else if g = 2 then 0 \<le> fst l \<and> fst l < 90
         else if g = 3 then 90 \<le> fst l
         else False),
      whereNumeric = demoTable,
      js = demoRuntime\<rparr>"

definition demoFeatures :: "int feature list" where
  "demoFeatures =
     [\<lparr>fid = Some (ascii ''840''), shape = 1\<rparr>,
      \<lparr>fid = Some (ascii ''10''), shape = 1\<rparr>,
      \<lparr>fid = None, shape = 2\<rparr>,
      \<lparr>fid = Some (ascii ''76''), shape = 2\<rparr>,
      \<lparr>fid = Some (ascii ''250''), shape = 3\<rparr>]"

definition demoWorld :: "int world" where
  "demoWorld = init demoExt None (640, 480) (Loaded 7 8 demoFeatures) (800.5, 600.9)"

definition failedWorld :: "int world" where
  "failedWorld = init demoExt None (640, 480) LoadFailed (800.5, 600.9)"

definition landOnlyWorld :: "int world" where
  "landOnlyWorld = init demoExt None (640, 480) (LandOnly 7) (800.5, 600.9)"

text \<open>A collection in which two features carry the id \<open>840\<close>, the second without a finite centroid.\<close>

definition twinFeatures :: "int feature list" where
  "twinFeatures =
     [\<lparr>fid = Some (ascii ''840''), shape = 1\<rparr>,
      \<lparr>fid = Some (ascii ''840''), shape = 3\<rparr>]"

definition twinWorld :: "int world" where
  "twinWorld = init demoExt None (640, 480) (Loaded 7 8 twinFeatures) (800.5, 600.9)"

section \<open>Literals\<close>

lemma ascii_Nil_iff [simp]: "ascii s = [] \<longleftrightarrow> s = []"
  by (simp add: ascii_def)

lemma ascii_eq_iff [simp]: "ascii s = ascii t \<longleftrightarrow> s = t"
proof -
  have "inj (of_char :: char \<Rightarrow> nat)"
    by (rule injI) (metis char_of_char)
  then show ?thesis
    by (auto simp: ascii_def dest: inj_mapD)
qed

lemma length_ascii [simp]: "length (ascii s) = length s"
  by (simp add: ascii_def)

section \<open>The small world, evaluated\<close>

lemma demo_fit: "fitProjection demoExt 800 600 7 = \<lparr>pscale = 106, ptranslate = (400, 300)\<rparr>"
  by (simp add: fitProjection_def demoExt_def Let_def)

lemma demo_index:
  "centroidLoop demoExt \<lparr>pscale = 106, ptranslate = (400, 300)\<rparr> demoFeatures []
     = [((ascii ''US''), (294, 300)), ((ascii ''BR''), (506, 300))]"
  by code_simp

lemma demoWorld_eq:
  "demoWorld =
     \<lparr>width = 800, height = 600, dpr = 1, canvasWidth = 800, canvasHeight = 600,
      projection = Some \<lparr>pscale = 106, ptranslate = (400, 300)\<rparr>,
      landGeo = Some 7, countryLinesGeo = Some 8, countriesFC = Some demoFeatures,
      alpha2ToCentroid = [((ascii ''US''), (294, 300)), ((ascii ''BR''), (506, 300))],
      pinned = [], blips = []\<rparr>"
  by (simp add: demoWorld_def init_def setSize_def refit_def applyLoad_def initialWorld_def
      computeCentroids_def dprOf_def demo_fit demo_index Let_def)



lemma failedWorld_eq:
  "failedWorld =
     \<lparr>width = 800, height = 600, dpr = 1, canvasWidth = 800, canvasHeight = 600,
      projection = None, landGeo = None, countryLinesGeo = None, countriesFC = None,
      alpha2ToCentroid = [], pinned = [], blips = []\<rparr>"
  by (simp add: failedWorld_def init_def setSize_def refit_def applyLoad_def initialWorld_def
      computeCentroids_def dprOf_def Let_def)

lemma landOnlyWorld_eq:
  "landOnlyWorld =
     \<lparr>width = 800, height = 600, dpr = 1, canvasWidth = 800, canvasHeight = 600,
      projection = Some \<lparr>pscale = 106, ptranslate = (400, 300)\<rparr>,
      landGeo = Some 7, countryLinesGeo = None, countriesFC = None,
      alpha2ToCentroid = [], pinned = [], blips = []\<rparr>"
  by (simp add: landOnlyWorld_def init_def setSize_def refit_def applyLoad_def initialWorld_def
      computeCentroids_def dprOf_def demo_fit Let_def)

lemma demo_upper: "toUpperCase U (ascii ''us'') = (ascii ''US'')" "toUpperCase U (ascii ''FR'') = (ascii ''FR'')" "toUpperCase U (ascii ''BR'') = (ascii ''BR'')"
  by code_simp+

lemma sqrt_le_20: "0 \<le> d \<Longrightarrow> sqrt d \<le> 20 \<longleftrightarrow> d \<le> 400"
  using real_sqrt_le_iff [of d 400] real_sqrt_abs [of 20] by simp

lemma demo_resized:
  "onResize demoExt (1000.7, 500.3) None demoWorld
     = demoWorld\<lparr>width := 1000, height := 500, canvasWidth := 1000, canvasHeight := 500,
         projection := Some \<lparr>pscale = 106, ptranslate = (500, 250)\<rparr>,
         alpha2ToCentroid := [((ascii ''US''), (394, 250)), ((ascii ''BR''), (606, 250))]\<rparr>"
proof -
  have f: "fitProjection demoExt 1000 500 7 = \<lparr>pscale = 106, ptranslate = (500, 250)\<rparr>"
    by (simp add: fitProjection_def demoExt_def Let_def)
  have i: "centroidLoop demoExt \<lparr>pscale = 106, ptranslate = (500, 250)\<rparr> demoFeatures []
             = [((ascii ''US''), (394, 250)), ((ascii ''BR''), (606, 250))]"
    by code_simp
  show ?thesis
    by (simp add: onResize_def setSize_def refit_def computeCentroids_def demoWorld_eq dprOf_def f i Let_def)
qed

lemma demo_resized_landOnly:
  "onResize demoExt (1000.7, 500.3) None landOnlyWorld
     = landOnlyWorld\<lparr>width := 1000, height := 500, canvasWidth := 1000, canvasHeight := 500,
         projection := Some \<lparr>pscale = 106, ptranslate = (500, 250)\<rparr>\<rparr>"
proof -
  have f: "fitProjection demoExt 1000 500 7 = \<lparr>pscale = 106, ptranslate = (500, 250)\<rparr>"
    by (simp add: fitProjection_def demoExt_def Let_def)
  show ?thesis
    by (simp add: onResize_def setSize_def refit_def computeCentroids_def landOnlyWorld_eq dprOf_def f Let_def)
qed


lemma demo_upper3: "toUpperCase U (ascii ''usa'') = (ascii ''USA'')" "toUpperCase U (ascii ''br'') = (ascii ''BR'')" "toUpperCase U (ascii ''zz'') = (ascii ''ZZ'')"
  by code_simp+

lemma demo_yClip: "yClip demoExt \<lparr>pscale = 106, ptranslate = (400, 300)\<rparr> st = 420"
  by (simp add: yClip_def demoExt_def)

lemma demo_frame_pinned:
  "fst (frame demoExt now (demoWorld\<lparr>pinned := ps\<rparr>))
     = [ClearRect 800 600, GradientBackground 800 600, Land 7 420, Boundaries 8 420]
       @ concat (map (drawPin [((ascii ''US''), (294, 300)), ((ascii ''BR''), (506, 300))]) ps)"
  by (simp add: frame_def drawGradientBackground_def drawLand_def drawCountryBoundaries_def
      drawPins_def demoWorld_eq demo_yClip)

lemma demo_failed_run:
  "run demoExt True [Pin (Str (ascii ''us'')), BlipRequest (Some ((ascii ''us''), New)) 100,
       Click (300, 310) (0, 0) 200, Resize (1000.7, 500.3) None] failedWorld
     = failedWorld\<lparr>width := 1000, height := 500, canvasWidth := 1000, canvasHeight := 500,
         pinned := [(ascii ''US'')]\<rparr>"
  by (simp add: onPin_def setAdd_def demo_upper onBlip_def onClick_def onResize_def setSize_def
      refit_def computeCentroids_def dprOf_def Let_def)
     (simp add: failedWorld_eq)

section \<open>Properties of the leaderboard cache\<close>


lemma map_of_mapSet: "map_of (mapSet k v m) = (map_of m)(k \<mapsto> v)"
  by (induction m) (auto simp: fun_eq_iff)

text \<open>
  Two cases in which a code normalises, the write succeeds and the count is not raised:
  a stored array is written back as it was, and a stored value that is a non-empty
  string is replaced by a string.
\<close>

lemma incrementCountry_array:
  assumes "normalizeCountryCode (unicodeUpper R) (Some code) = Some cc"
    and "hasWindow b" and "writable b" and "item b = Some (Parsed (JArr xs))"
  shows "incrementCountry R code delta b = b\<lparr>updates := updates b + 1\<rparr>"
  using assms
  by (simp add: incrementCountry_def getCounts_def setCounts_def setProp_def stringify_def
      emitUpdate_def Let_def)

lemma incrementCountry_text:
  assumes "normalizeCountryCode (unicodeUpper R) (Some code) = Some cc"
    and "hasWindow b" and "writable b" and "getCounts b = CObj ps"
    and "map_of ps cc = Some (JStr s)" and "s \<noteq> []"
  shows "getProp (getCounts (incrementCountry R code delta b)) cc
           = Some (JStr (plusText R (JStr s) (deltaOf delta)))"
  using assms
  by (simp add: incrementCountry_def getCounts_def setCounts_def setProp_def stringify_def
      getProp_def orZero_def plusNumber_def emitUpdate_def map_of_mapSet Let_def)





section \<open>Properties of the Effect Scheduler\<close>

lemma drawBlips_snd:
  "snd (drawBlips now bs :: 'g draw list \<times> Blip list)
     = filter (\<lambda>b. now - start b \<le> duration (kind b)) bs"
  by (induction bs)
     (auto simp: drawBlip_def duration_def Let_def split: option.splits BlipKind.splits if_splits)


lemma drawBlips_fst:
  "b \<in> set bs \<Longrightarrow> drawBlip now b = Some d \<Longrightarrow> d \<in> set (fst (drawBlips now bs))"
  by (induction bs) (auto split: option.splits)

text \<open>
  C3. A live blip of kind \<open>new\<close> whose progress \<open>t = elapsed / 760\<close> lies in \<open>[0, 1]\<close> is drawn
  as a disc of radius \<open>4 + 18 t\<close> with opacity \<open>1 - t\<close>; a live blip of kind \<open>repeat\<close> with
  \<open>t = elapsed / 420\<close> is drawn as a ring of radius \<open>8 + 12 t\<close> with opacity
  \<open>0.85 (1 - t)\<close>. The shape is what the loop body yields for the blip, and it is among
  the shapes drawn by the pass over the live list.
\<close>

theorem blip_radius_opacity:
  fixes t :: real
  assumes "0 \<le> t" and "t \<le> 1" and "b \<in> set bs"
  shows "(kind b = New \<and> t = (now - start b) / 760 \<longrightarrow>
            (drawBlip now b :: 'g draw option)
              = Some (BlipDisc (blip_x b) (blip_y b) (4 + 18 * t) (1 - t))
            \<and> BlipDisc (blip_x b) (blip_y b) (4 + 18 * t) (1 - t)
                \<in> set (fst (drawBlips now bs :: 'g draw list \<times> Blip list)))
       \<and> (kind b = Repeat \<and> t = (now - start b) / 420 \<longrightarrow>
            (drawBlip now b :: 'g draw option)
              = Some (BlipRing (blip_x b) (blip_y b) (8 + 12 * t) (0.85 * (1 - t)))
            \<and> BlipRing (blip_x b) (blip_y b) (8 + 12 * t) (0.85 * (1 - t))
                \<in> set (fst (drawBlips now bs :: 'g draw list \<times> Blip list)))"
proof -
  have new: "(drawBlip now b :: 'g draw option)
               = Some (BlipDisc (blip_x b) (blip_y b) (4 + 18 * t) (1 - t))"
    if "kind b = New" "t = (now - start b) / 760"
    using that assms(1,2) by (simp add: drawBlip_def NEW_DURATION_def Let_def min_def max_def)
  have rep: "(drawBlip now b :: 'g draw option)
               = Some (BlipRing (blip_x b) (blip_y b) (8 + 12 * t) (0.85 * (1 - t)))"
    if "kind b = Repeat" "t = (now - start b) / 420"
    using that assms(1,2) by (simp add: drawBlip_def REPEAT_DURATION_def Let_def min_def max_def)
  show ?thesis
    using new rep drawBlips_fst [OF assms(3)] by blast
qed

theorem blip_radius_opacity_witness:
  "(drawBlip 1000 \<lparr>blip_x = 10, blip_y = 20, kind = New, start = 1000\<rparr> :: unit draw option)
      = Some (BlipDisc 10 20 4 1)
   \<and> (drawBlip 1760 \<lparr>blip_x = 10, blip_y = 20, kind = New, start = 1000\<rparr> :: unit draw option)
      = Some (BlipDisc 10 20 22 0)
   \<and> (drawBlip 1000 \<lparr>blip_x = 10, blip_y = 20, kind = Repeat, start = 1000\<rparr> :: unit draw option)
      = Some (BlipRing 10 20 8 0.85)
   \<and> (drawBlip 1420 \<lparr>blip_x = 10, blip_y = 20, kind = Repeat, start = 1000\<rparr> :: unit draw option)
      = Some (BlipRing 10 20 20 0)"
  using
    blip_radius_opacity [where 'g = unit, of 0 "\<lparr>blip_x = 10, blip_y = 20, kind = New, start = 1000\<rparr>"
      "[\<lparr>blip_x = 10, blip_y = 20, kind = New, start = 1000\<rparr>]" 1000]
    blip_radius_opacity [where 'g = unit, of 1 "\<lparr>blip_x = 10, blip_y = 20, kind = New, start = 1000\<rparr>"
      "[\<lparr>blip_x = 10, blip_y = 20, kind = New, start = 1000\<rparr>]" 1760]
    blip_radius_opacity [where 'g = unit, of 0 "\<lparr>blip_x = 10, blip_y = 20, kind = Repeat, start = 1000\<rparr>"
      "[\<lparr>blip_x = 10, blip_y = 20, kind = Repeat, start = 1000\<rparr>]" 1000]
    blip_radius_opacity [where 'g = unit, of 1 "\<lparr>blip_x = 10, blip_y = 20, kind = Repeat, start = 1000\<rparr>"
      "[\<lparr>blip_x = 10, blip_y = 20, kind = Repeat, start = 1000\<rparr>]" 1420]
  by simp

lemma blips_refit [simp]: "blips (refit E st) = blips st"
  by (simp add: refit_def split: option.splits)

lemma blips_setSize [simp]: "blips (setSize E rect d st) = blips st"
  by (simp add: setSize_def Let_def)

lemma blips_computeCentroids [simp]: "blips (computeCentroids E st) = blips st"
  by (simp add: computeCentroids_def split: option.splits)

lemma blips_onResize [simp]: "blips (onResize E rect d st) = blips st"
  by (simp add: onResize_def)

lemma blips_onPin [simp]: "blips (snd (onPin E code st)) = blips st"
  by (simp add: onPin_def split: payload.splits)

lemma blips_frame [simp]:
  "blips (snd (frame E now st)) = filter (\<lambda>b. now - start b \<le> duration (kind b)) (blips st)"
  by (simp add: frame_def Let_def drawBlips_snd)











section \<open>Properties of the Projection Manager\<close>

lemma projection_computeCentroids [simp]: "projection (computeCentroids E st) = projection st"
  by (simp add: computeCentroids_def split: option.splits)

lemma landGeo_computeCentroids [simp]: "landGeo (computeCentroids E st) = landGeo st"
  by (simp add: computeCentroids_def split: option.splits)

text \<open>
  C6. With land geometry present, \<open>setSize\<close> sets the width and height to the floored
  sides of the viewport and makes the projection the equirectangular projection fitted to
  the extent \<open>[[padding, padding], [width - padding, height - padding]]\<close>, where
  \<open>padding = max(12, min(width, height) * 0.028)\<close>, with its scale multiplied by 1.06; when
  fitting throws, the projection has scale \<open>width / (2 pi) * 1.06\<close> and translation
  \<open>(width / 2, height / 2)\<close>. The resize handler leaves the projection that \<open>setSize\<close>
  computed.
\<close>

theorem setSize_projection:
  fixes rect :: "real \<times> real"
  defines "w \<equiv> of_int \<lfloor>fst rect\<rfloor>" and "h \<equiv> of_int \<lfloor>snd rect\<rfloor>"
  defines "padding \<equiv> max 12 (min w h * 0.028)"
  assumes land: "landGeo st = Some land"
  shows "width (setSize E rect d st) = w \<and> height (setSize E rect d st) = h
       \<and> (\<forall>p. fitExtent E (geoEquirectangular E)
                  ((padding, padding), (w - padding, h - padding)) land = Some p
              \<longrightarrow> projection (setSize E rect d st) = Some (p\<lparr>pscale := pscale p * 1.06\<rparr>))
       \<and> (fitExtent E (geoEquirectangular E)
              ((padding, padding), (w - padding, h - padding)) land = None
              \<longrightarrow> projection (setSize E rect d st)
                    = Some ((geoEquirectangular E)\<lparr>pscale := w / (2 * pi) * 1.06,
                                                   ptranslate := (w / 2, h / 2)\<rparr>))
       \<and> projection (onResize E rect d st) = projection (setSize E rect d st)"
  using land
  by (simp add: setSize_def refit_def fitProjection_def onResize_def Let_def w_def h_def padding_def)

lemma demo_degenerate_land:
  "landGeo (init demoExt None (640, 480) (LandOnly 0) (800.5, 600.9)) = Some 0"
  by (simp add: init_def refit_def setSize_def applyLoad_def initialWorld_def Let_def)

theorem setSize_projection_witness:
  "landGeo demoWorld = Some 7
   \<and> projection (onResize demoExt (1000.7, 500.3) None demoWorld)
       = Some \<lparr>pscale = 106, ptranslate = (500, 250)\<rparr>
   \<and> landGeo (init demoExt None (640, 480) (LandOnly 0) (800.5, 600.9)) = Some 0
   \<and> projection (onResize demoExt (1000.7, 500.3) None
         (init demoExt None (640, 480) (LandOnly 0) (800.5, 600.9)))
       = Some \<lparr>pscale = 1000 / (2 * pi) * 1.06, ptranslate = (500, 250)\<rparr>"
proof -
  have a: "landGeo demoWorld = Some 7"
    by (simp add: demoWorld_eq)
  note b = demo_degenerate_land
  show ?thesis
    using a b
      setSize_projection [OF a, of demoExt "(1000.7, 500.3)" None]
      setSize_projection [OF b, of demoExt "(1000.7, 500.3)" None]
    by (simp add: demoExt_def)
qed

section \<open>Properties of the Interaction Layer\<close>

lemma padStart3_idem: "padStart3 (padStart3 s) = padStart3 s"
  by (simp add: padStart3_def)




lemma nearestLoop_Cons:
  "nearestLoop mx my (e # m) acc =
     nearestLoop mx my m
       (Some (case acc of
                None \<Rightarrow> (fst e, dist2 (snd e) (mx, my))
              | Some n \<Rightarrow> if dist2 (snd e) (mx, my) < snd n then (fst e, dist2 (snd e) (mx, my)) else n))"
  by (cases e; cases acc) (simp_all add: dist2_def Let_def)

lemma nearestLoop_None:
  "nearestLoop mx my m acc = None \<longleftrightarrow> acc = None \<and> m = []"
  by (induction m arbitrary: acc) (simp_all add: nearestLoop_Cons del: nearestLoop.simps(2))

lemma nearestLoop_le_acc:
  "nearestLoop mx my m (Some n) = Some r \<Longrightarrow> snd r \<le> snd n"
proof (induction m arbitrary: n)
  case Nil
  then show ?case by simp
next
  case (Cons e m)
  show ?case
  proof (cases "dist2 (snd e) (mx, my) < snd n")
    case True
    with Cons.prems have "nearestLoop mx my m (Some (fst e, dist2 (snd e) (mx, my))) = Some r"
      by (simp add: nearestLoop_Cons del: nearestLoop.simps(2))
    from Cons.IH [OF this] True show ?thesis by simp
  next
    case False
    with Cons.prems have "nearestLoop mx my m (Some n) = Some r"
      by (simp add: nearestLoop_Cons del: nearestLoop.simps(2))
    from Cons.IH [OF this] show ?thesis .
  qed
qed

lemma nearestLoop_le_all:
  "nearestLoop mx my m acc = Some r \<Longrightarrow> e \<in> set m \<Longrightarrow> snd r \<le> dist2 (snd e) (mx, my)"
proof (induction m arbitrary: acc)
  case Nil
  then show ?case by simp
next
  case (Cons e' m)
  let ?acc = "case acc of
                None \<Rightarrow> (fst e', dist2 (snd e') (mx, my))
              | Some n \<Rightarrow> if dist2 (snd e') (mx, my) < snd n then (fst e', dist2 (snd e') (mx, my)) else n"
  have r: "nearestLoop mx my m (Some ?acc) = Some r"
    using Cons.prems(1) by (simp add: nearestLoop_Cons del: nearestLoop.simps(2))
  show ?case
  proof (cases "e = e'")
    case True
    have "snd ?acc \<le> dist2 (snd e') (mx, my)"
      by (cases acc) auto
    with nearestLoop_le_acc [OF r] True show ?thesis by simp
  next
    case False
    with Cons.prems(2) have "e \<in> set m" by simp
    from Cons.IH [OF r this] show ?thesis .
  qed
qed

lemma nearestLoop_mem:
  "nearestLoop mx my m acc = Some r \<Longrightarrow>
     acc = Some r \<or> (\<exists>c. (fst r, c) \<in> set m \<and> snd r = dist2 c (mx, my))"
proof (induction m arbitrary: acc)
  case Nil
  then show ?case by simp
next
  case (Cons e m)
  let ?acc = "case acc of
                None \<Rightarrow> (fst e, dist2 (snd e) (mx, my))
              | Some n \<Rightarrow> if dist2 (snd e) (mx, my) < snd n then (fst e, dist2 (snd e) (mx, my)) else n"
  have r: "nearestLoop mx my m (Some ?acc) = Some r"
    using Cons.prems(1) by (simp add: nearestLoop_Cons del: nearestLoop.simps(2))
  from Cons.IH [OF r] consider "?acc = r" | "\<exists>c. (fst r, c) \<in> set m \<and> snd r = dist2 c (mx, my)"
    by auto
  then show ?case
  proof cases
    case 1
    have "acc = Some ?acc \<or> ?acc = (fst e, dist2 (snd e) (mx, my))"
      by (cases acc) auto
    then show ?thesis
    proof
      assume "acc = Some ?acc"
      with 1 show ?thesis by simp
    next
      assume "?acc = (fst e, dist2 (snd e) (mx, my))"
      with 1 have "(fst r, snd e) = e \<and> snd r = dist2 (snd e) (mx, my)"
        by auto
      then show ?thesis
        by (metis list.set_intros(1))
    qed
  next
    case 2
    then show ?thesis by auto
  qed
qed

lemma nearestLoop_spec:
  assumes "m \<noteq> []"
  shows "\<exists>code c. (code, c) \<in> set m
           \<and> (\<forall>e\<in>set m. dist2 c (mx, my) \<le> dist2 (snd e) (mx, my))
           \<and> nearestLoop mx my m None = Some (code, dist2 c (mx, my))"
proof -
  obtain r where r: "nearestLoop mx my m None = Some r"
    using assms nearestLoop_None [of mx my m None] by (cases "nearestLoop mx my m None") auto
  from nearestLoop_mem [OF r] obtain c where c: "(fst r, c) \<in> set m" "snd r = dist2 c (mx, my)"
    by auto
  have "\<forall>e\<in>set m. dist2 c (mx, my) \<le> dist2 (snd e) (mx, my)"
    using nearestLoop_le_all [OF r] c(2) by auto
  with c r show ?thesis
    by (intro exI [of _ "fst r"] exI [of _ c]) (simp add: prod_eq_iff)
qed

text \<open>
  C2. A pointer-move with the projection absent or the centroid index empty emits
  nothing. Otherwise it emits exactly one hover event, at once, with the pointer position
  relative to the canvas: it carries the code of an indexed centroid whose squared
  distance to the pointer is least among all indexed centroids if that centroid is within
  20 pixels, and no code otherwise. A pointer-leave emits no code with the position
  \<open>(-1, -1)\<close>.
\<close>

theorem onPointerMove_hover:
  fixes client origin :: "real \<times> real"
  defines "mx \<equiv> fst client - fst origin" and "my \<equiv> snd client - snd origin"
  shows "(projection st = None \<or> alpha2ToCentroid st = []
            \<longrightarrow> onPointerMove client origin st = [])
       \<and> (projection st \<noteq> None \<and> alpha2ToCentroid st \<noteq> []
            \<longrightarrow> (\<exists>code c. (code, c) \<in> set (alpha2ToCentroid st)
                    \<and> (\<forall>e\<in>set (alpha2ToCentroid st). dist2 c (mx, my) \<le> dist2 (snd e) (mx, my))
                    \<and> onPointerMove client origin st
                        = [Hover (if sqrt (dist2 c (mx, my)) \<le> 20 then Some code else None) mx my]))
       \<and> (onPointerLeave :: 'g emitted list) = [Hover None (- 1) (- 1)]"
proof (intro conjI impI)
  assume "projection st = None \<or> alpha2ToCentroid st = []"
  then show "onPointerMove client origin st = []"
    by (auto simp: onPointerMove_def)
next
  assume a: "projection st \<noteq> None \<and> alpha2ToCentroid st \<noteq> []"
  then have "alpha2ToCentroid st \<noteq> []" ..
  from nearestLoop_spec [OF this, of mx my] obtain code c where
    m: "(code, c) \<in> set (alpha2ToCentroid st)" and
    l: "\<forall>e\<in>set (alpha2ToCentroid st). dist2 c (mx, my) \<le> dist2 (snd e) (mx, my)" and
    r: "nearestLoop mx my (alpha2ToCentroid st) None = Some (code, dist2 c (mx, my))"
    by blast
  have "onPointerMove client origin st
          = [Hover (if sqrt (dist2 c (mx, my)) \<le> 20 then Some code else None) mx my]"
    using a r by (simp add: onPointerMove_def mx_def my_def Let_def)
  with m l show "\<exists>code c. (code, c) \<in> set (alpha2ToCentroid st)
      \<and> (\<forall>e\<in>set (alpha2ToCentroid st). dist2 c (mx, my) \<le> dist2 (snd e) (mx, my))
      \<and> onPointerMove client origin st
          = [Hover (if sqrt (dist2 c (mx, my)) \<le> 20 then Some code else None) mx my]"
    by blast
next
  show "(onPointerLeave :: 'g emitted list) = [Hover None (- 1) (- 1)]"
    by (simp add: onPointerLeave_def)
qed

theorem onPointerMove_hover_witness:
  "projection demoWorld \<noteq> None \<and> alpha2ToCentroid demoWorld \<noteq> []
   \<and> onPointerMove (310, 320) (10, 10) demoWorld = [Hover (Some (ascii ''US'')) 300 310]
   \<and> onPointerMove (410, 310) (10, 10) demoWorld = [Hover None 400 300]
   \<and> alpha2ToCentroid landOnlyWorld = []
   \<and> onPointerMove (310, 320) (10, 10) landOnlyWorld = []
   \<and> (onPointerLeave :: int emitted list) = [Hover None (- 1) (- 1)]"
proof -
  have a: "projection demoWorld \<noteq> None \<and> alpha2ToCentroid demoWorld \<noteq> []"
    by (simp add: demoWorld_eq)
  have i: "set (alpha2ToCentroid demoWorld) = {((ascii ''US''), (294, 300)), ((ascii ''BR''), (506, 300))}"
    by (simp add: demoWorld_eq)
  have e: "alpha2ToCentroid landOnlyWorld = []"
    by (simp add: landOnlyWorld_eq)
  have near: "onPointerMove (310, 320) (10, 10) demoWorld = [Hover (Some (ascii ''US'')) 300 310]"
    using onPointerMove_hover [of demoWorld "(310, 320)" "(10, 10)", where 'g = int] a
    unfolding i by (auto simp: dist2_def sqrt_le_20)
  have far: "onPointerMove (410, 310) (10, 10) demoWorld = [Hover None 400 300]"
    using onPointerMove_hover [of demoWorld "(410, 310)" "(10, 10)", where 'g = int] a
    unfolding i by (auto simp: dist2_def sqrt_le_20)
  have none: "onPointerMove (310, 320) (10, 10) landOnlyWorld = []"
    using onPointerMove_hover [of landOnlyWorld "(310, 320)" "(10, 10)", where 'g = int] e
    by simp
  have leave: "(onPointerLeave :: int emitted list) = [Hover None (- 1) (- 1)]"
    using onPointerMove_hover [of demoWorld "(310, 320)" "(10, 10)", where 'g = int] by simp
  show ?thesis
    using a near far e none leave by simp
qed

text \<open>
  The claim C2 as written fails where the geometry did not load: the index is empty and
  a pointer-move emits no hover event.
\<close>

theorem onPointerMove_empty_counterexample:
  "onPointerMove (10, 10) (0, 0) failedWorld = []"
  by (simp add: onPointerMove_def failedWorld_def init_def setSize_def refit_def applyLoad_def initialWorld_def
      computeCentroids_def Let_def)


section \<open>Properties of the Centroid Index\<close>

text \<open>\<open>finitePoint\<close> yields a point exactly for a pair of finite numbers.\<close>

lemma finitePoint_Some_iff: "finitePoint c = Some (a, b) \<longleftrightarrow> c = Some (Num a, Num b)"
  by (cases c rule: finitePoint.cases) auto

lemma finitePoint_isFinite:
  "finitePoint c \<noteq> None \<longleftrightarrow> (\<exists>x y. c = Some (x, y) \<and> isFinite x \<and> isFinite y)"
  by (cases c rule: finitePoint.cases) auto

lemma keys_mapSet: "fst ` set (mapSet k v m) = insert k (fst ` set m)"
  using arg_cong [OF map_of_mapSet [of k v m], of dom] by (simp add: dom_map_of_conv_image_fst)

lemma set_mapSet: "e \<in> set (mapSet k v m) \<Longrightarrow> e = (k, v) \<or> e \<in> set m"
  by (induction m) (auto split: if_splits)

lemma centroidLoop_keys:
  "fst ` set (centroidLoop E p fs m)
     = fst ` set m \<union> {k. \<exists>f\<in>set fs. featureAlpha2 E f = Some k
                                \<and> finitePoint (centroid E p (shape f)) \<noteq> None}"
proof (induction fs arbitrary: m)
  case Nil
  then show ?case by simp
next
  case (Cons f fs)
  show ?case
  proof (cases "featureAlpha2 E f")
    case None
    then show ?thesis using Cons.IH [of m] by auto
  next
    case (Some k)
    show ?thesis
    proof (cases "finitePoint (centroid E p (shape f))")
      case None
      then show ?thesis using Some Cons.IH [of m] by auto
    next
      case (Some c)
      then show ?thesis
        using \<open>featureAlpha2 E f = Some k\<close> Cons.IH [of "mapSet k c m"]
        by (auto simp: keys_mapSet)
    qed
  qed
qed

lemma centroidLoop_entries:
  "e \<in> set (centroidLoop E p fs m) \<Longrightarrow>
     e \<in> set m \<or> (\<exists>f\<in>set fs. featureAlpha2 E f = Some (fst e)
                      \<and> finitePoint (centroid E p (shape f)) = Some (snd e))"
proof (induction fs arbitrary: m)
  case Nil
  then show ?case by simp
next
  case (Cons f fs)
  show ?case
  proof (cases "featureAlpha2 E f")
    case None
    then show ?thesis using Cons.IH [of m] Cons.prems by auto
  next
    case (Some k)
    show ?thesis
    proof (cases "finitePoint (centroid E p (shape f))")
      case None
      then show ?thesis using Some Cons.IH [of m] Cons.prems by auto
    next
      case (Some c)
      with \<open>featureAlpha2 E f = Some k\<close> Cons.prems
      have "e \<in> set (centroidLoop E p fs (mapSet k c m))"
        by simp
      from Cons.IH [OF this] show ?thesis
        using Some \<open>featureAlpha2 E f = Some k\<close> set_mapSet [of e k c m] by auto
    qed
  qed
qed

lemma blipFallback_Some:
  "blipFallback E p code fs = Some c \<Longrightarrow>
     \<exists>f\<in>set fs. featureAlpha2 E f = Some code \<and> finitePoint (centroid E p (shape f)) \<noteq> None"
  by (induction fs) (auto split: if_splits)

lemma blipFallback_unindexed:
  assumes "map_of (centroidLoop E p fs []) code = None"
  shows "blipFallback E p code fs = None"
proof (rule ccontr)
  assume "blipFallback E p code fs \<noteq> None"
  then obtain c where "blipFallback E p code fs = Some c" by auto
  from blipFallback_Some [OF this] have "code \<in> fst ` set (centroidLoop E p fs [])"
    unfolding centroidLoop_keys by auto
  with assms show False
    by (simp add: map_of_eq_None_iff)
qed

lemma indexCurrent_computeCentroids:
  "alpha2ToCentroid st = [] \<or> (projection st \<noteq> None \<and> countriesFC st \<noteq> None)
     \<Longrightarrow> indexCurrent E (computeCentroids E st)"
  by (auto simp: indexCurrent_def computeCentroids_def split: option.splits)

lemma indexCurrent_init: "indexCurrent E (init E d r1 l r2)"
  unfolding init_def
  by (rule indexCurrent_computeCentroids)
     (simp add: refit_def setSize_def applyLoad_def initialWorld_def Let_def
        split: option.splits loaded.splits)

lemma countriesFC_setSize [simp]: "countriesFC (setSize E rect d st) = countriesFC st"
  by (simp add: setSize_def refit_def Let_def split: option.splits)

lemma alpha2ToCentroid_setSize [simp]: "alpha2ToCentroid (setSize E rect d st) = alpha2ToCentroid st"
  by (simp add: setSize_def refit_def Let_def split: option.splits)

lemma projection_setSize_None:
  "projection (setSize E rect d st) = None \<Longrightarrow> projection st = None"
  by (simp add: setSize_def refit_def Let_def split: option.splits)

lemma indexCurrent_onResize:
  assumes "indexCurrent E st"
  shows "indexCurrent E (onResize E rect d st)"
  unfolding onResize_def
proof (rule indexCurrent_computeCentroids)
  show "alpha2ToCentroid (setSize E rect d st) = []
      \<or> projection (setSize E rect d st) \<noteq> None \<and> countriesFC (setSize E rect d st) \<noteq> None"
    using assms projection_setSize_None [of E rect d st]
    by (auto simp: indexCurrent_def split: option.splits)
qed

lemma indexCurrent_onClick:
  "indexCurrent E st \<Longrightarrow> indexCurrent E (snd (onClick E cb client origin now st))"
  by (auto simp: indexCurrent_def onClick_def pushBlip_def Let_def split: option.splits)

lemma indexCurrent_onPin: "indexCurrent E st \<Longrightarrow> indexCurrent E (snd (onPin E code st))"
  by (auto simp: indexCurrent_def onPin_def split: option.splits payload.splits)

lemma indexCurrent_frame: "indexCurrent E st \<Longrightarrow> indexCurrent E (snd (frame E now st))"
  by (auto simp: indexCurrent_def frame_def Let_def split: option.splits)

lemma indexCurrent_pushBlip [simp]: "indexCurrent E (pushBlip pos k now st) = indexCurrent E st"
  by (simp add: indexCurrent_def pushBlip_def cong: option.case_cong)

lemma indexCurrent_onBlip:
  assumes "indexCurrent E st"
  shows "indexCurrent E (onBlip E detail now st)"
proof (cases detail)
  case None
  then show ?thesis using assms by (simp add: onBlip_def)
next
  case (Some d)
  show ?thesis
  proof (cases "map_of (alpha2ToCentroid st) (toUpperCase (unicodeUpper (js E)) (fst d))")
    case (Some pos)
    then have "onBlip E detail now st = pushBlip pos (snd d) now st"
      using \<open>detail = Some d\<close> by (simp add: onBlip_def Let_def)
    then show ?thesis
      using assms by simp
  next
    case None
    have "onBlip E detail now st = st"
    proof (cases "projection st")
      case None
      then show ?thesis
        using \<open>detail = Some d\<close> \<open>map_of (alpha2ToCentroid st) (toUpperCase (unicodeUpper (js E)) (fst d)) = None\<close>
        by (simp add: onBlip_def Let_def)
    next
      case (Some p)
      show ?thesis
      proof (cases "countriesFC st")
        case None
        then show ?thesis
          using \<open>detail = Some d\<close> \<open>map_of (alpha2ToCentroid st) (toUpperCase (unicodeUpper (js E)) (fst d)) = None\<close> Some
          by (simp add: onBlip_def Let_def)
      next
        case (Some fc)
        with \<open>projection st = Some p\<close> assms
        have "alpha2ToCentroid st = centroidLoop E p fc []"
          by (simp add: indexCurrent_def)
        with \<open>map_of (alpha2ToCentroid st) (toUpperCase (unicodeUpper (js E)) (fst d)) = None\<close>
        have "blipFallback E p (toUpperCase (unicodeUpper (js E)) (fst d)) fc = None"
          by (simp add: blipFallback_unindexed)
        then show ?thesis
          using \<open>detail = Some d\<close> \<open>map_of (alpha2ToCentroid st) (toUpperCase (unicodeUpper (js E)) (fst d)) = None\<close>
            \<open>projection st = Some p\<close> Some
          by (simp add: onBlip_def Let_def)
      qed
    qed
    then show ?thesis using assms by simp
  qed
qed

lemma indexCurrent_step: "indexCurrent E st \<Longrightarrow> indexCurrent E (snd (step E cb e st))"
  by (cases e)
     (simp_all add: indexCurrent_onResize indexCurrent_onClick indexCurrent_onPin
        indexCurrent_onBlip indexCurrent_frame)

lemma indexCurrent_run: "indexCurrent E st \<Longrightarrow> indexCurrent E (run E cb es st)"
  by (induction es arbitrary: st) (simp_all add: indexCurrent_step)

lemma padStart3_zeroPadded3: "padStart3 s = zeroPadded3 s"
proof -
  consider "length s = 0" | "length s = 1" | "length s = 2" | "3 \<le> length s"
    by linarith
  then show ?thesis
    by cases (auto simp: padStart3_def zeroPadded3_def numeral_3_eq_3 numeral_2_eq_2)
qed

lemma featureAlpha2_tableCode: "featureAlpha2 E f = tableCode E f"
  by (simp add: featureAlpha2_def featureNumeric_def alpha2FromNumeric_def tableCode_def
      padStart3_zeroPadded3 [symmetric] padStart3_idem split: option.splits)

lemma finitePoint_Num: "finitePoint c = Some q \<longleftrightarrow> c = Some (Num (fst q), Num (snd q))"
  by (cases c rule: finitePoint.cases) auto

text \<open>
  C7. In every state of a session (after \<open>init\<close> and any events, resizes included) with a
  projection and a feature collection, the index is the one built from scratch under
  that projection. The code of a feature is the upper-cased alpha-2 value that the table
  gives for its numeric id zero-padded to three digits. Every feature that has a code
  and whose centroid under the projection is finite in both coordinates has its code in
  the index; every entry of the index is the code of such a feature with the centroid of
  that feature under the projection; and a feature whose code no other feature of the
  collection shares has its code in the index if and only if its centroid is finite, and
  then the index holds that centroid. Without a projection or a feature collection the
  index is empty.
\<close>

theorem centroid_index_current:
  assumes "st = run E cb es (init E d r1 l r2)"
  shows "(\<forall>p fc. projection st = Some p \<and> countriesFC st = Some fc \<longrightarrow>
            alpha2ToCentroid st = centroidLoop E p fc []
          \<and> (\<forall>f\<in>set fc. \<forall>k x y. tableCode E f = Some k
                 \<and> centroid E p (shape f) = Some (Num x, Num y)
               \<longrightarrow> k \<in> fst ` set (alpha2ToCentroid st))
          \<and> (\<forall>e\<in>set (alpha2ToCentroid st). \<exists>f\<in>set fc. tableCode E f = Some (fst e)
                 \<and> centroid E p (shape f) = Some (Num (fst (snd e)), Num (snd (snd e))))
          \<and> (\<forall>f\<in>set fc. \<forall>k. tableCode E f = Some k
                 \<and> (\<forall>g\<in>set fc. tableCode E g = Some k \<longrightarrow> g = f)
               \<longrightarrow> (k \<in> fst ` set (alpha2ToCentroid st)
                      \<longleftrightarrow> (\<exists>x y. centroid E p (shape f) = Some (Num x, Num y)))
                 \<and> (\<forall>x y. centroid E p (shape f) = Some (Num x, Num y)
                      \<longrightarrow> map_of (alpha2ToCentroid st) k = Some (x, y))))
       \<and> (projection st = None \<or> countriesFC st = None \<longrightarrow> alpha2ToCentroid st = [])"
proof -
  have cur: "indexCurrent E st"
    unfolding assms by (intro indexCurrent_run indexCurrent_init)
  show ?thesis
  proof (intro conjI allI impI)
    fix p fc
    assume a: "projection st = Some p \<and> countriesFC st = Some fc"
    with cur show eq: "alpha2ToCentroid st = centroidLoop E p fc []"
      by (simp add: indexCurrent_def)
    show A: "\<forall>f\<in>set fc. \<forall>k x y. tableCode E f = Some k
            \<and> centroid E p (shape f) = Some (Num x, Num y)
          \<longrightarrow> k \<in> fst ` set (alpha2ToCentroid st)"
      unfolding eq centroidLoop_keys featureAlpha2_tableCode by auto
    show B: "\<forall>e\<in>set (alpha2ToCentroid st). \<exists>f\<in>set fc. tableCode E f = Some (fst e)
            \<and> centroid E p (shape f) = Some (Num (fst (snd e)), Num (snd (snd e)))"
      unfolding eq
      using centroidLoop_entries [of _ E p fc "[]"]
      by (auto simp: featureAlpha2_tableCode finitePoint_Num)
    show "\<forall>f\<in>set fc. \<forall>k. tableCode E f = Some k
            \<and> (\<forall>g\<in>set fc. tableCode E g = Some k \<longrightarrow> g = f)
          \<longrightarrow> (k \<in> fst ` set (alpha2ToCentroid st)
                 \<longleftrightarrow> (\<exists>x y. centroid E p (shape f) = Some (Num x, Num y)))
            \<and> (\<forall>x y. centroid E p (shape f) = Some (Num x, Num y)
                 \<longrightarrow> map_of (alpha2ToCentroid st) k = Some (x, y))"
    proof (intro ballI allI impI)
      fix f k
      assume f: "f \<in> set fc"
        and u: "tableCode E f = Some k \<and> (\<forall>g\<in>set fc. tableCode E g = Some k \<longrightarrow> g = f)"
      have own: "centroid E p (shape f) = Some (Num (fst c), Num (snd c))"
        if "(k, c) \<in> set (alpha2ToCentroid st)" for c
      proof -
        from B that obtain g where "g \<in> set fc" "tableCode E g = Some k"
          "centroid E p (shape g) = Some (Num (fst c), Num (snd c))"
          by fastforce
        with u show ?thesis by auto
      qed
      have key: "k \<in> fst ` set (alpha2ToCentroid st)
          \<longleftrightarrow> (\<exists>x y. centroid E p (shape f) = Some (Num x, Num y))"
      proof
        assume "k \<in> fst ` set (alpha2ToCentroid st)"
        then obtain c where "(k, c) \<in> set (alpha2ToCentroid st)" by auto
        from own [OF this] show "\<exists>x y. centroid E p (shape f) = Some (Num x, Num y)"
          by blast
      next
        assume "\<exists>x y. centroid E p (shape f) = Some (Num x, Num y)"
        with A f u show "k \<in> fst ` set (alpha2ToCentroid st)" by blast
      qed
      have val: "map_of (alpha2ToCentroid st) k = Some (x, y)"
        if c: "centroid E p (shape f) = Some (Num x, Num y)" for x y
      proof -
        from key c have "k \<in> fst ` set (alpha2ToCentroid st)" by blast
        then obtain c' where m: "map_of (alpha2ToCentroid st) k = Some c'"
          by (metis map_of_eq_None_iff not_Some_eq)
        then have "(k, c') \<in> set (alpha2ToCentroid st)"
          by (rule map_of_SomeD)
        from own [OF this] c have "c' = (x, y)"
          by (simp add: prod_eq_iff)
        with m show ?thesis by simp
      qed
      from key val show "(k \<in> fst ` set (alpha2ToCentroid st)
            \<longleftrightarrow> (\<exists>x y. centroid E p (shape f) = Some (Num x, Num y)))
          \<and> (\<forall>x y. centroid E p (shape f) = Some (Num x, Num y)
                \<longrightarrow> map_of (alpha2ToCentroid st) k = Some (x, y))"
        by blast
    qed
  next
    assume "projection st = None \<or> countriesFC st = None"
    with cur show "alpha2ToCentroid st = []"
      by (auto simp: indexCurrent_def split: option.splits)
  qed
qed

lemmas code_defs = tableCode_def zeroPadded3_def demoExt_def demoTable_def toUpperCase_def
  asciiUpper_def ascii_def demoRuntime_def demoUpper_def

lemma demo_codes:
  "tableCode demoExt \<lparr>fid = Some (ascii ''840''), shape = g\<rparr> = Some (ascii ''US'')"
  "tableCode demoExt \<lparr>fid = Some (ascii ''10''), shape = g\<rparr> = None"
  "tableCode demoExt \<lparr>fid = None, shape = g\<rparr> = None"
  "tableCode demoExt \<lparr>fid = Some (ascii ''76''), shape = g\<rparr> = Some (ascii ''BR'')"
  "tableCode demoExt \<lparr>fid = Some (ascii ''250''), shape = g\<rparr> = Some (ascii ''FR'')"
  by (simp_all add: code_defs)

lemma demo_centroids:
  "centroid demoExt p 1 = Some (Num (fst (ptranslate p) - pscale p), Num (snd (ptranslate p)))"
  "centroid demoExt p 2 = Some (Num (fst (ptranslate p) + pscale p), Num (snd (ptranslate p)))"
  "centroid demoExt p 3 = Some (NaN, NaN)"
  by (simp_all add: demoExt_def)

lemma twinWorld_eq:
  "twinWorld =
     \<lparr>width = 800, height = 600, dpr = 1, canvasWidth = 800, canvasHeight = 600,
      projection = Some \<lparr>pscale = 106, ptranslate = (400, 300)\<rparr>,
      landGeo = Some 7, countryLinesGeo = Some 8, countriesFC = Some twinFeatures,
      alpha2ToCentroid = [(ascii ''US'', (294, 300))],
      pinned = [], blips = []\<rparr>"
proof -
  have i: "centroidLoop demoExt \<lparr>pscale = 106, ptranslate = (400, 300)\<rparr> twinFeatures []
      = [(ascii ''US'', (294, 300))]"
    by (simp add: twinFeatures_def featureAlpha2_tableCode demo_codes demo_centroids)
  show ?thesis
    by (simp add: twinWorld_def init_def setSize_def refit_def applyLoad_def initialWorld_def
        computeCentroids_def dprOf_def demo_fit i Let_def)
qed

theorem centroid_index_current_witness:
  "projection (run demoExt True [Resize (1000.7, 500.3) None] demoWorld)
      = Some \<lparr>pscale = 106, ptranslate = (500, 250)\<rparr>
   \<and> countriesFC (run demoExt True [Resize (1000.7, 500.3) None] demoWorld) = Some demoFeatures
   \<and> tableCode demoExt \<lparr>fid = Some (ascii ''76''), shape = 2\<rparr> = Some (ascii ''BR'')
   \<and> map_of (alpha2ToCentroid (run demoExt True [Resize (1000.7, 500.3) None] demoWorld))
        (ascii ''BR'') = Some (606, 250)
   \<and> tableCode demoExt \<lparr>fid = Some (ascii ''250''), shape = 3\<rparr> = Some (ascii ''FR'')
   \<and> ascii ''FR'' \<notin> fst ` set (alpha2ToCentroid
        (run demoExt True [Resize (1000.7, 500.3) None] demoWorld))
   \<and> countriesFC (run demoExt True [Resize (1000.7, 500.3) None] landOnlyWorld) = None
   \<and> alpha2ToCentroid (run demoExt True [Resize (1000.7, 500.3) None] landOnlyWorld) = []"
proof -
  let ?st = "run demoExt True [Resize (1000.7, 500.3) None] demoWorld"
  let ?lo = "run demoExt True [Resize (1000.7, 500.3) None] landOnlyWorld"
  let ?p = "\<lparr>pscale = 106, ptranslate = (500, 250)\<rparr>"
  let ?br = "\<lparr>fid = Some (ascii ''76''), shape = 2\<rparr> :: int feature"
  let ?fr = "\<lparr>fid = Some (ascii ''250''), shape = 3\<rparr> :: int feature"
  have p: "projection ?st = Some ?p"
    by (simp add: demo_resized)
  have c: "countriesFC ?st = Some demoFeatures"
    by (simp add: demo_resized) (simp add: demoWorld_eq)
  have n: "countriesFC ?lo = None"
    by (simp add: demo_resized_landOnly) (simp add: landOnlyWorld_eq)
  have br: "?br \<in> set demoFeatures
      \<and> tableCode demoExt ?br = Some (ascii ''BR'')
      \<and> (\<forall>g\<in>set demoFeatures. tableCode demoExt g = Some (ascii ''BR'') \<longrightarrow> g = ?br)"
    by (simp add: demoFeatures_def demo_codes)
  have fr: "?fr \<in> set demoFeatures
      \<and> tableCode demoExt ?fr = Some (ascii ''FR'')
      \<and> (\<forall>g\<in>set demoFeatures. tableCode demoExt g = Some (ascii ''FR'') \<longrightarrow> g = ?fr)"
    by (simp add: demoFeatures_def demo_codes)
  note T = centroid_index_current [where E = demoExt and cb = True and d = None
      and ?r1.0 = "(640, 480)" and ?r2.0 = "(800.5, 600.9)", folded demoWorld_def landOnlyWorld_def]
  note U = T [where l = "Loaded 7 8 demoFeatures" and es = "[Resize (1000.7, 500.3) None]",
      folded demoWorld_def, OF refl, THEN conjunct1, rule_format, OF conjI [OF p c],
      THEN conjunct2, THEN conjunct2, THEN conjunct2, rule_format]
  have A: "map_of (alpha2ToCentroid ?st) (ascii ''BR'') = Some (606, 250)"
    using U [of ?br "ascii ''BR''", THEN conjunct2, rule_format, of 606 250] br
    by (simp add: demo_centroids)
  have B: "ascii ''FR'' \<notin> fst ` set (alpha2ToCentroid ?st)"
    using U [of ?fr "ascii ''FR''", THEN conjunct1] fr
    by (simp add: demo_centroids)
  have C: "alpha2ToCentroid ?lo = []"
    by (rule T [where l = "LandOnly 7" and es = "[Resize (1000.7, 500.3) None]",
          folded landOnlyWorld_def, OF refl, THEN conjunct2, rule_format, OF disjI2, OF n])
  show ?thesis
    using p c n br fr A B C by simp
qed

text \<open>
  The claim C7 as written fails for a collection in which two features share a numeric
  id: the code of the second feature is in the index although its centroid is not
  finite.
\<close>

theorem shared_code_counterexample:
  "countriesFC twinWorld = Some [\<lparr>fid = Some (ascii ''840''), shape = 1\<rparr>,
                                 \<lparr>fid = Some (ascii ''840''), shape = 3\<rparr>]
   \<and> projection twinWorld = Some \<lparr>pscale = 106, ptranslate = (400, 300)\<rparr>
   \<and> tableCode demoExt \<lparr>fid = Some (ascii ''840''), shape = 3\<rparr> = Some (ascii ''US'')
   \<and> ascii ''US'' \<in> fst ` set (alpha2ToCentroid twinWorld)
   \<and> centroid demoExt \<lparr>pscale = 106, ptranslate = (400, 300)\<rparr> 3 = Some (NaN, NaN)"
  by (simp add: twinWorld_eq twinFeatures_def demo_codes demo_centroids)

section \<open>Properties of the codes used as keys\<close>






lemma pinned_setSize [simp]: "pinned (setSize E rect d st) = pinned st"
  by (simp add: setSize_def refit_def Let_def split: option.splits)

lemma pinned_computeCentroids [simp]: "pinned (computeCentroids E st) = pinned st"
  by (simp add: computeCentroids_def split: option.splits)

lemma pinned_onClick [simp]: "pinned (snd (onClick E cb client origin now st)) = pinned st"
  by (simp add: onClick_def pushBlip_def Let_def split: option.splits)

lemma pinned_onBlip [simp]: "pinned (onBlip E detail now st) = pinned st"
  by (simp add: onBlip_def pushBlip_def Let_def split: option.splits)

lemma pinned_frame [simp]: "pinned (snd (frame E now st)) = pinned st"
  by (simp add: frame_def Let_def)

lemma pinned_onPin:
  "set (pinned (snd (onPin E code st))) =
     (case code of
        NotString t \<Rightarrow> set (pinned st)
      | Str c \<Rightarrow>
          if c = [] then set (pinned st)
          else insert (toUpperCase (unicodeUpper (js E)) c) (set (pinned st)))"
  by (auto simp: onPin_def setAdd_def split: payload.splits)



lemma setAdd_mono: "set xs \<subseteq> set (setAdd x xs) \<and> length xs \<le> length (setAdd x xs)"
  by (auto simp: setAdd_def)

lemma pinned_step_mono:
  "set (pinned st) \<subseteq> set (pinned (snd (step E cb e st)))
   \<and> length (pinned st) \<le> length (pinned (snd (step E cb e st)))"
proof (cases e)
  case (Pin code)
  then show ?thesis
    using setAdd_mono [of "pinned st"] by (simp add: onPin_def split: payload.splits)
qed (simp_all add: onResize_def)

lemma pinned_run_mono:
  "set (pinned st) \<subseteq> set (pinned (run E cb es st))
   \<and> length (pinned st) \<le> length (pinned (run E cb es st))"
proof (induction es arbitrary: st)
  case Nil
  then show ?case by simp
next
  case (Cons e es)
  from Cons.IH [of "snd (step E cb e st)"] pinned_step_mono [of st E cb e]
  show ?case by (simp add: subset_iff)
qed


lemma pinned_init [simp]: "pinned (init E d r1 l r2) = []"
  by (simp add: init_def refit_def applyLoad_def initialWorld_def split: option.splits loaded.splits)


lemmas upper_defs = toUpperCase_def asciiUpper_def ascii_def demoExt_def demoRuntime_def
  demoUpper_def





section \<open>Properties of the Pin Set\<close>

lemma drawPin_dot:
  "PinDot x y \<in> set (drawPin m k :: 'g draw list) \<longleftrightarrow> map_of m k = Some (x, y)"
  by (auto simp: drawPin_def split: option.splits)

lemma drawPin_ring:
  "PinRing x y \<in> set (drawPin m k :: 'g draw list) \<longleftrightarrow> map_of m k = Some (x, y)"
  by (auto simp: drawPin_def split: option.splits)

lemma drawPins_dot:
  "PinDot x y \<in> set (drawPins st :: 'g draw list)
     \<longleftrightarrow> projection st \<noteq> None \<and> (\<exists>k\<in>set (pinned st). map_of (alpha2ToCentroid st) k = Some (x, y))"
  by (cases "projection st") (auto simp: drawPins_def drawPin_dot)

lemma drawPins_ring:
  "PinRing x y \<in> set (drawPins st :: 'g draw list)
     \<longleftrightarrow> projection st \<noteq> None \<and> (\<exists>k\<in>set (pinned st). map_of (alpha2ToCentroid st) k = Some (x, y))"
  by (cases "projection st") (auto simp: drawPins_def drawPin_ring)

lemma drawBlip_no_pin:
  "(drawBlip now b :: 'g draw option) \<noteq> Some (PinDot x y)
   \<and> (drawBlip now b :: 'g draw option) \<noteq> Some (PinRing x y)"
  by (cases "kind b") (simp_all add: drawBlip_def Let_def)

lemma drawBlips_no_pin:
  "PinDot x y \<notin> set (fst (drawBlips now bs :: 'g draw list \<times> Blip list))
   \<and> PinRing x y \<notin> set (fst (drawBlips now bs :: 'g draw list \<times> Blip list))"
proof (induction bs)
  case Nil
  then show ?case by simp
next
  case (Cons b bs)
  then show ?case
    using drawBlip_no_pin [of now b x y, where 'g = 'g]
    by (cases "drawBlip now b :: 'g draw option") auto
qed

lemma scenery_no_pin:
  "PinDot x y \<notin> set (drawGradientBackground st @ drawLand E st @ drawCountryBoundaries E st)
   \<and> PinRing x y \<notin> set (drawGradientBackground st @ drawLand E st @ drawCountryBoundaries E st)"
  by (simp add: drawGradientBackground_def drawLand_def drawCountryBoundaries_def
      split: option.splits)

lemma frame_pins:
  "(PinDot x y \<in> set (fst (frame E now st)) \<longleftrightarrow> PinDot x y \<in> set (drawPins st))
   \<and> (PinRing x y \<in> set (fst (frame E now st)) \<longleftrightarrow> PinRing x y \<in> set (drawPins st))"
proof -
  have "set (fst (frame E now st))
      = insert (ClearRect (width st) (height st))
          (set (drawGradientBackground st @ drawLand E st @ drawCountryBoundaries E st)
           \<union> set (drawPins st) \<union> set (fst (drawBlips now (blips st))))"
    by (auto simp: frame_def Let_def)
  then show ?thesis
    using drawBlips_no_pin [of x y now "blips st"] scenery_no_pin [of x y st E]
    by blast
qed

text \<open>
  C9. No event removes a code from the Pin Set: through every run of events the set only
  grows and its size does not decrease, and a non-empty code added on the pin channel
  stays in it (in upper case). A render pass draws the dot and the ring of a pin at a
  position exactly when the projection is present and that position is the indexed
  centroid of a pinned code; a pinned code without an indexed centroid is skipped.
\<close>

theorem pins_kept_and_drawn:
  "set (pinned st) \<subseteq> set (pinned (run E cb es st))
   \<and> length (pinned st) \<le> length (pinned (run E cb es st))
   \<and> (code \<noteq> [] \<longrightarrow>
        toUpperCase (unicodeUpper (js E)) code
          \<in> set (pinned (run E cb es (snd (onPin E (Str code) st)))))
   \<and> (PinDot x y \<in> set (fst (frame E now st))
        \<longleftrightarrow> projection st \<noteq> None
            \<and> (\<exists>k\<in>set (pinned st). map_of (alpha2ToCentroid st) k = Some (x, y)))
   \<and> (PinRing x y \<in> set (fst (frame E now st))
        \<longleftrightarrow> projection st \<noteq> None
            \<and> (\<exists>k\<in>set (pinned st). map_of (alpha2ToCentroid st) k = Some (x, y)))"
proof -
  have "toUpperCase (unicodeUpper (js E)) code
      \<in> set (pinned (run E cb es (snd (onPin E (Str code) st))))" if "code \<noteq> []"
  proof -
    have "toUpperCase (unicodeUpper (js E)) code \<in> set (pinned (snd (onPin E (Str code) st)))"
      using that by (simp add: pinned_onPin)
    then show ?thesis
      using pinned_run_mono [of "snd (onPin E (Str code) st)" E cb es] by blast
  qed
  then show ?thesis
    using pinned_run_mono [of st E cb es] frame_pins [of x y E now st]
    by (simp add: drawPins_dot drawPins_ring)
qed

theorem pins_kept_and_drawn_witness:
  "(ascii ''US'') \<in> set (pinned (run demoExt True [Pin (Str (ascii ''zz'')), Frame 10, Resize (1000.7, 500.3) None]
        (snd (onPin demoExt (Str (ascii ''us'')) demoWorld))))
   \<and> PinDot 294 300 \<in> set (fst (frame demoExt 5000 (snd (onPin demoExt (Str (ascii ''us'')) demoWorld))))
   \<and> PinRing 294 300 \<in> set (fst (frame demoExt 5000 (snd (onPin demoExt (Str (ascii ''us'')) demoWorld))))
   \<and> PinDot 506 300 \<notin> set (fst (frame demoExt 5000 (snd (onPin demoExt (Str (ascii ''us'')) demoWorld))))"
proof -
  have u: "toUpperCase (unicodeUpper (js demoExt)) (ascii ''us'') = ascii ''US''"
    by (simp add: upper_defs)
  have r: "snd (onPin demoExt (Str (ascii ''us'')) demoWorld) = demoWorld\<lparr>pinned := [ascii ''US'']\<rparr>"
    by (simp add: onPin_def setAdd_def u) (simp add: demoWorld_eq)
  have f: "projection (demoWorld\<lparr>pinned := [(ascii ''US'')]\<rparr>) \<noteq> None
      \<and> set (pinned (demoWorld\<lparr>pinned := [(ascii ''US'')]\<rparr>)) = {(ascii ''US'')}
      \<and> map_of (alpha2ToCentroid (demoWorld\<lparr>pinned := [(ascii ''US'')]\<rparr>)) (ascii ''US'') = Some (294, 300)"
    by (simp add: demoWorld_eq)
  have a: "(ascii ''US'') \<in> set (pinned (run demoExt True [Pin (Str (ascii ''zz'')), Frame 10, Resize (1000.7, 500.3) None]
        (snd (onPin demoExt (Str (ascii ''us'')) demoWorld))))"
    using pins_kept_and_drawn [where code = "(ascii ''us'')" and st = demoWorld and E = demoExt and cb = True
        and es = "[Pin (Str (ascii ''zz'')), Frame 10, Resize (1000.7, 500.3) None]"] u
    by simp
  have b: "PinDot 294 300 \<in> set (fst (frame demoExt 5000 (snd (onPin demoExt (Str (ascii ''us'')) demoWorld))))
      \<and> PinRing 294 300 \<in> set (fst (frame demoExt 5000 (snd (onPin demoExt (Str (ascii ''us'')) demoWorld))))"
    unfolding r
    using pins_kept_and_drawn [where st = "demoWorld\<lparr>pinned := [(ascii ''US'')]\<rparr>" and E = demoExt
        and x = 294 and y = 300 and now = 5000] f
    by simp
  have c: "PinDot 506 300 \<notin> set (fst (frame demoExt 5000 (snd (onPin demoExt (Str (ascii ''us'')) demoWorld))))"
    unfolding r
    using pins_kept_and_drawn [where st = "demoWorld\<lparr>pinned := [(ascii ''US'')]\<rparr>" and E = demoExt
        and x = 506 and y = 300 and now = 5000] f
    by simp
  show ?thesis
    using a b c by blast
qed

text \<open>
  The claim C9 as written fails for a valid code that has no centroid in the index: \<open>ZZ\<close>
  is pinned, and the render pass draws no dot and no ring.
\<close>

theorem pin_without_centroid_counterexample:
  "twoUpper (ascii ''ZZ'')
   \<and> pinned (run demoExt True [Pin (Str (ascii ''zz''))] demoWorld) = [(ascii ''ZZ'')]
   \<and> fst (frame demoExt 5000 (run demoExt True [Pin (Str (ascii ''zz''))] demoWorld))
       = [ClearRect 800 600, GradientBackground 800 600, Land 7 420, Boundaries 8 420]"
proof -
  have z: "twoUpper (ascii ''ZZ'')" by code_simp
  have r: "run demoExt True [Pin (Str (ascii ''zz''))] demoWorld = demoWorld\<lparr>pinned := [(ascii ''ZZ'')]\<rparr>"
    by (simp add: onPin_def setAdd_def demo_upper3) (simp add: demoWorld_eq)
  show ?thesis
    unfolding r demo_frame_pinned using z by (simp add: drawPin_def)
qed

section \<open>Properties of a failed load\<close>

lemma onClick_noCountries: "countriesFC st = None \<Longrightarrow> onClick E cb client origin now st = ([], st)"
  by (simp add: onClick_def split: option.splits)

lemma onBlip_noCountries:
  "countriesFC st = None \<Longrightarrow> alpha2ToCentroid st = [] \<Longrightarrow> onBlip E detail now st = st"
  by (simp add: onBlip_def Let_def split: option.splits)

lemma frame_no_blips: "blips st = [] \<Longrightarrow> snd (frame E now st) = st"
  by (simp add: frame_def)

lemma noCountries_onResize: "noCountries st \<Longrightarrow> noCountries (onResize E rect d st)"
  by (simp add: noCountries_def onResize_def computeCentroids_def split: option.splits)

lemma noCountries_onPin: "noCountries st \<Longrightarrow> noCountries (snd (onPin E code st))"
  by (simp add: noCountries_def onPin_def split: payload.splits)

lemma noCountries_step: "noCountries st \<Longrightarrow> noCountries (snd (step E cb e st))"
  by (cases e)
     (simp_all add: noCountries_onResize noCountries_onPin,
      simp_all add: noCountries_def onClick_noCountries onBlip_noCountries frame_no_blips)

lemma noCountries_run: "noCountries st \<Longrightarrow> noCountries (run E cb es st)"
  by (induction es arbitrary: st) (simp_all add: noCountries_step)

lemma geometry_setSize:
  "landGeo (setSize E rect d st) = landGeo st
   \<and> countryLinesGeo (setSize E rect d st) = countryLinesGeo st
   \<and> (landGeo st = None \<longrightarrow> projection (setSize E rect d st) = projection st)"
  by (simp add: setSize_def refit_def Let_def split: option.splits)

lemma geometry_computeCentroids:
  "landGeo (computeCentroids E st) = landGeo st
   \<and> countryLinesGeo (computeCentroids E st) = countryLinesGeo st"
  by (simp add: computeCentroids_def split: option.splits)

lemma noGeometry_onResize: "noGeometry st \<Longrightarrow> noGeometry (onResize E rect d st)"
  using noCountries_onResize [of st E rect d] geometry_setSize [of E rect d st]
    geometry_computeCentroids [of E "setSize E rect d st"]
  by (simp add: noGeometry_def) (simp add: onResize_def)

lemma noGeometry_onPin: "noGeometry st \<Longrightarrow> noGeometry (snd (onPin E code st))"
  using noCountries_onPin [of st E code]
  by (simp add: noGeometry_def) (simp add: onPin_def split: payload.splits)

lemma noGeometry_step: "noGeometry st \<Longrightarrow> noGeometry (snd (step E cb e st))"
  by (cases e)
     (simp_all add: noGeometry_onResize noGeometry_onPin,
      simp_all add: noGeometry_def noCountries_def onClick_noCountries onBlip_noCountries frame_no_blips)

lemma noGeometry_run: "noGeometry st \<Longrightarrow> noGeometry (run E cb es st)"
  by (induction es arbitrary: st) (simp_all add: noGeometry_step)

lemma noGeometry_init: "noGeometry (init E d r1 LoadFailed r2)"
  by (simp add: noGeometry_def noCountries_def init_def computeCentroids_def refit_def
      setSize_def applyLoad_def initialWorld_def Let_def)

lemma noCountries_init:
  assumes "\<forall>land lines fc. l \<noteq> Loaded land lines fc"
  shows "noCountries (init E d r1 l r2)"
proof -
  have "countriesFC (applyLoad l (setSize E r1 d (initialWorld d))) = None"
    using assms by (cases l) (simp_all add: applyLoad_def setSize_def refit_def initialWorld_def Let_def)
  moreover have "alpha2ToCentroid (applyLoad l (setSize E r1 d (initialWorld d))) = []
      \<and> blips (applyLoad l (setSize E r1 d (initialWorld d))) = []"
    by (cases l) (simp_all add: applyLoad_def setSize_def refit_def initialWorld_def Let_def)
  ultimately show ?thesis
    by (simp add: noCountries_def init_def computeCentroids_def refit_def split: option.splits)
qed

text \<open>
  C8. A failed load is a value of the model, not an error, and the session goes on. When
  the load fails before any geometry is assigned, every frame of the session draws the
  cleared canvas and the gradient background and nothing else, and leaves the state as it
  is. Whenever the load fails before the feature collection is assigned, in every state
  of the session a click does nothing, a pointer-move emits nothing, and a frame draws
  the background and whatever land and border geometry was assigned before the failure,
  and no pin and no blip.
\<close>

theorem load_failure_degrades:
  assumes "st = run E cb es (init E d r1 l r2)"
  shows "(l = LoadFailed \<longrightarrow>
            frame E now st
              = ([ClearRect (width st) (height st), GradientBackground (width st) (height st)], st))
       \<and> ((\<forall>land lines fc. l \<noteq> Loaded land lines fc) \<longrightarrow>
              onClick E cb client origin now st = ([], st)
            \<and> onPointerMove client origin st = []
            \<and> frame E now st
                = (ClearRect (width st) (height st) # GradientBackground (width st) (height st)
                     # drawLand E st @ drawCountryBoundaries E st, st))"
proof (intro conjI impI)
  assume "l = LoadFailed"
  then have "noGeometry st"
    unfolding assms by (simp add: noGeometry_run noGeometry_init)
  then show "frame E now st
      = ([ClearRect (width st) (height st), GradientBackground (width st) (height st)], st)"
    by (simp add: noGeometry_def noCountries_def frame_def drawGradientBackground_def drawLand_def
        drawCountryBoundaries_def drawPins_def)
next
  assume "\<forall>land lines fc. l \<noteq> Loaded land lines fc"
  then have n: "noCountries st"
    unfolding assms by (simp add: noCountries_run noCountries_init)
  then show "onClick E cb client origin now st = ([], st)"
    by (simp add: noCountries_def onClick_noCountries)
  from n show "onPointerMove client origin st = []"
    by (simp add: noCountries_def onPointerMove_def)
  from n show "frame E now st
      = (ClearRect (width st) (height st) # GradientBackground (width st) (height st)
           # drawLand E st @ drawCountryBoundaries E st, st)"
    by (cases "projection st")
       (simp_all add: noCountries_def frame_def drawGradientBackground_def drawPins_def drawPin_def)
qed

theorem load_failure_degrades_witness:
  "frame demoExt 5000
       (run demoExt True [Pin (Str (ascii ''us'')), BlipRequest (Some ((ascii ''us''), New)) 100,
          Click (300, 310) (0, 0) 200, Resize (1000.7, 500.3) None] failedWorld)
     = ([ClearRect 1000 500, GradientBackground 1000 500],
        run demoExt True [Pin (Str (ascii ''us'')), BlipRequest (Some ((ascii ''us''), New)) 100,
          Click (300, 310) (0, 0) 200, Resize (1000.7, 500.3) None] failedWorld)
   \<and> onClick demoExt True (300, 310) (0, 0) 200 landOnlyWorld = ([], landOnlyWorld)
   \<and> onPointerMove (300, 310) (0, 0) landOnlyWorld = []
   \<and> frame demoExt 5000 landOnlyWorld
     = (ClearRect 800 600 # GradientBackground 800 600
          # drawLand demoExt landOnlyWorld @ drawCountryBoundaries demoExt landOnlyWorld,
        landOnlyWorld)"
proof -
  let ?es = "[Pin (Str (ascii ''us'')), BlipRequest (Some ((ascii ''us''), New)) 100,
       Click (300, 310) (0, 0) 200, Resize (1000.7, 500.3) None]"
  have w: "width (run demoExt True ?es failedWorld) = 1000
      \<and> height (run demoExt True ?es failedWorld) = 500"
    unfolding demo_failed_run by simp
  have a: "frame demoExt 5000 (run demoExt True ?es failedWorld)
     = ([ClearRect 1000 500, GradientBackground 1000 500], run demoExt True ?es failedWorld)"
    using load_failure_degrades [where E = demoExt and cb = True and d = None
        and ?r1.0 = "(640, 480)" and ?r2.0 = "(800.5, 600.9)" and l = LoadFailed
        and es = ?es and now = 5000, folded failedWorld_def, OF refl] w
    by simp
  have v: "width landOnlyWorld = 800 \<and> height landOnlyWorld = 600"
    by (simp add: landOnlyWorld_eq)
  have b: "onClick demoExt True (300, 310) (0, 0) 200 landOnlyWorld = ([], landOnlyWorld)
   \<and> onPointerMove (300, 310) (0, 0) landOnlyWorld = []
   \<and> frame demoExt 5000 landOnlyWorld
     = (ClearRect 800 600 # GradientBackground 800 600
          # drawLand demoExt landOnlyWorld @ drawCountryBoundaries demoExt landOnlyWorld,
        landOnlyWorld)"
    using load_failure_degrades [where E = demoExt and cb = True and d = None
        and ?r1.0 = "(640, 480)" and ?r2.0 = "(800.5, 600.9)" and l = "LandOnly 7"
        and es = "[]" and client = "(300, 310)" and origin = "(0, 0)",
        folded landOnlyWorld_def, simplified, OF refl] v
    by simp
  show ?thesis
    using a b by blast
qed

text \<open>
  The claim C8 as written fails when the load fails after the land was assigned (the
  import of the countries throws): the frames draw the land as well as the background.
\<close>

theorem partial_load_counterexample:
  "countriesFC landOnlyWorld = None
   \<and> fst (frame demoExt 5000 landOnlyWorld)
       = [ClearRect 800 600, GradientBackground 800 600, Land 7 420]"
  by (simp add: frame_def drawGradientBackground_def drawLand_def drawCountryBoundaries_def
      drawPins_def landOnlyWorld_eq demo_yClip)


end
